theory Spec2Isabelle
  imports Main "HOL-Library.Sublist" "HOL-Library.Multiset" "HOL-Library.Char_ord"
    "HOL-Library.List_Lexorder" "HOL-Library.Product_Lexorder"
begin

section \<open>Text and JavaScript values\<close>

text \<open>
  The project memory store of ccmem has two servers: the relational one (the Bun server
  over SQLite, with the tables of schema.sql) and the fallback one (server-node.js, over a
  JSON document). Both are embedded here, function by function.

  Modelling conventions.
  \<^item> A JavaScript or SQLite text is a \<open>string\<close>: a list of characters with code points
    below 256, so that \<open>length\<close> and \<open>take\<close> are the \<open>.length\<close> and \<open>.substring(0, n)\<close> of
    the source. The pictographs that open the fixed literals of the source (and the blank
    after them) are left out of the literals.
  \<^item> A property of the argument bag has the type its tool's inputSchema declares, and
    \<open>None\<close> when the property is absent (\<open>undefined\<close>).
  \<^item> A timestamp is the clock reading as a number (seconds for SQLite's
    \<open>CURRENT_TIMESTAMP\<close>, milliseconds for \<open>Date\<close>); the clock is an input of every
    operation.
  \<^item> A thrown error is \<open>Inl\<close>: the store is then the one before the call. Failures of
    the file system are not modelled.
\<close>

definition nl :: string where
  "nl = [CHR 0x0A]"

definition bsn :: string where
  \<comment> \<open>the JavaScript literal \<open>'\\n'\<close>: a backslash and the letter n\<close>
  "bsn = [CHR 0x5C, CHR ''n'']"

definition dquote :: string where
  "dquote = [CHR 0x22]"

definition apostrophe :: string where
  "apostrophe = [CHR 0x27]"

definition digit_char :: "nat \<Rightarrow> char" where
  "digit_char d = ''0123456789'' ! d"

function str_of_nat :: "nat \<Rightarrow> string" where
  "str_of_nat n =
     (if n < 10 then [digit_char n] else str_of_nat (n div 10) @ [digit_char (n mod 10)])"
  by pat_completeness auto
termination
  by (relation "measure id") auto

declare str_of_nat.simps [simp del]

definition str_of_int :: "int \<Rightarrow> string" where
  "str_of_int i = (if i < 0 then ''-'' @ str_of_nat (nat (- i)) else str_of_nat (nat i))"

definition js_str :: "string option \<Rightarrow> string" where
  \<comment> \<open>a property inside a template literal\<close>
  "js_str v = (case v of None \<Rightarrow> ''undefined'' | Some s \<Rightarrow> s)"

definition or_null :: "string option \<Rightarrow> string option" where
  \<comment> \<open>\<open>v || null\<close>: the empty text is falsy\<close>
  "or_null v = (case v of None \<Rightarrow> None | Some s \<Rightarrow> if s = [] then None else Some s)"

definition or_default :: "string option \<Rightarrow> string \<Rightarrow> string" where
  \<comment> \<open>\<open>v || 'literal'\<close>\<close>
  "or_default v d = (case v of None \<Rightarrow> d | Some s \<Rightarrow> if s = [] then d else s)"

definition num_or_null :: "int option \<Rightarrow> int option" where
  \<comment> \<open>\<open>n || null\<close>: zero is falsy\<close>
  "num_or_null v = (case v of None \<Rightarrow> None | Some n \<Rightarrow> if n = 0 then None else Some n)"

definition num_or_default :: "int option \<Rightarrow> int \<Rightarrow> int" where
  "num_or_default v d = (case v of None \<Rightarrow> d | Some n \<Rightarrow> if n = 0 then d else n)"

definition substring0 :: "nat \<Rightarrow> string \<Rightarrow> string" where
  \<comment> \<open>\<open>s.substring(0, n)\<close>\<close>
  "substring0 n s = take n s"

definition sql_lower_char :: "char \<Rightarrow> char" where
  \<comment> \<open>SQLite folds the letters A to Z only\<close>
  "sql_lower_char c =
     (let k = (of_char c :: nat) in if 65 \<le> k \<and> k \<le> 90 then char_of (k + 32) else c)"

definition sql_lower :: "string \<Rightarrow> string" where
  "sql_lower s = map sql_lower_char s"

definition js_lower_char :: "char \<Rightarrow> char" where
  \<comment> \<open>\<open>toLowerCase\<close> below code point 256: A to Z, and the capital letters from
      0xC0 to 0xDE but the multiplication sign 0xD7\<close>
  "js_lower_char c =
     (let k = (of_char c :: nat) in
      if (65 \<le> k \<and> k \<le> 90) \<or> (192 \<le> k \<and> k \<le> 222 \<and> k \<noteq> 215) then char_of (k + 32) else c)"

definition toLowerCase :: "string \<Rightarrow> string" where
  "toLowerCase s = map js_lower_char s"

definition upper_char :: "char \<Rightarrow> char" where
  "upper_char c =
     (let k = (of_char c :: nat) in if 97 \<le> k \<and> k \<le> 122 then char_of (k - 32) else c)"

definition toUpperCase :: "string \<Rightarrow> string" where
  \<comment> \<open>the source applies it to the four type tags only, which are lower-case ASCII\<close>
  "toUpperCase s = map upper_char s"

fun join :: "string \<Rightarrow> string list \<Rightarrow> string" where
  "join sep [] = []"
| "join sep [x] = x"
| "join sep (x # y # ys) = x @ sep @ join sep (y # ys)"

section \<open>The relational store: schema.sql\<close>

text \<open>
  Every table has the column \<open>id INTEGER PRIMARY KEY AUTOINCREMENT\<close>. A table is the list
  of its rows in rowid order, each row paired with its id, together with the table's entry
  in \<open>sqlite_sequence\<close> (0 before the first insert). SQLite gives a new row one more than
  the largest of that entry and the rowids in the table, and stores the new rowid in the
  entry. Ids are unbounded here: the end of the 64-bit range, where SQLite refuses the
  insert, is out of reach of a store that assigns ids one by one.
\<close>

record 'r table =
  tbl_rows :: "(nat \<times> 'r) list"
  tbl_seq :: nat

definition empty_table :: "'r table" where
  "empty_table = \<lparr>tbl_rows = [], tbl_seq = 0\<rparr>"

definition ids :: "'r table \<Rightarrow> nat list" where
  "ids t = map fst (tbl_rows t)"

definition new_rowid :: "'r table \<Rightarrow> nat" where
  "new_rowid t = Suc (fold max (ids t) (tbl_seq t))"

definition tbl_insert :: "'r \<Rightarrow> 'r table \<Rightarrow> nat \<times> 'r table" where
  \<comment> \<open>\<open>INSERT INTO\<close>: returns \<open>lastInsertRowid\<close> and the table\<close>
  "tbl_insert r t =
     (let i = new_rowid t in (i, \<lparr>tbl_rows = tbl_rows t @ [(i, r)], tbl_seq = i\<rparr>))"

record settings_row =
  s_category :: string
  s_key_name :: string
  s_value :: string
  s_description :: "string option"
  s_created_at :: nat
  s_updated_at :: nat

record architecture_row =
  ar_component :: string
  ar_description :: string
  ar_tech_stack :: string
  ar_file_paths :: "string option"
  ar_patterns :: "string option"
  ar_created_at :: nat
  ar_updated_at :: nat

record deployment_row =
  dp_environment :: string
  dp_target_host :: "string option"
  dp_deployment_steps :: string
  dp_test_verification :: "string option"
  dp_rollback_steps :: "string option"
  dp_last_deployed_at :: "nat option"
  dp_created_at :: nat
  dp_updated_at :: nat

record story_row =
  st_title :: string
  st_description :: string
  st_status :: string
  st_priority :: int
  st_files_affected :: "string option"
  st_created_at :: nat
  st_updated_at :: nat
  st_completed_at :: "nat option"

record task_row =
  tk_story_id :: "int option"
  tk_title :: string
  tk_description :: string
  tk_status :: string
  tk_files_affected :: "string option"
  tk_implementation_notes :: "string option"
  tk_created_at :: nat
  tk_updated_at :: nat
  tk_completed_at :: "nat option"

record defect_row =
  df_story_id :: "int option"
  df_task_id :: "int option"
  df_title :: string
  df_description :: string
  df_severity :: string
  df_status :: string
  df_files_affected :: "string option"
  df_fix_description :: "string option"
  df_created_at :: nat
  df_resolved_at :: "nat option"

record lessons_row =
  ls_title :: string
  ls_description :: string
  ls_category :: string
  ls_impact_level :: string
  ls_related_files :: "string option"
  ls_tags :: "string option"
  ls_created_at :: nat

record knowledge_row =
  kn_title :: string
  kn_content :: string
  kn_category :: string
  kn_tags :: "string option"
  kn_created_at :: nat
  kn_updated_at :: nat

record db =
  settings :: "settings_row table"
  architecture :: "architecture_row table"
  deployment :: "deployment_row table"
  story :: "story_row table"
  task :: "task_row table"
  defect :: "defect_row table"
  lessons :: "lessons_row table"
  knowledge :: "knowledge_row table"

definition empty_db :: db where
  "empty_db = \<lparr>settings = empty_table, architecture = empty_table, deployment = empty_table,
     story = empty_table, task = empty_table, defect = empty_table, lessons = empty_table,
     knowledge = empty_table\<rparr>"

datatype error = NotNull string string | UnknownTool string | TypeError string

definition error_message :: "error \<Rightarrow> string" where
  "error_message e =
     (case e of
        NotNull tbl col \<Rightarrow> ''NOT NULL constraint failed: '' @ tbl @ ''.'' @ col
      | UnknownTool name \<Rightarrow> ''Unknown tool: '' @ name
      | TypeError expr \<Rightarrow>
          ''undefined is not an object (evaluating '' @ apostrophe @ expr @ apostrophe @ '')'')"

definition same_key :: "string \<Rightarrow> string \<Rightarrow> nat \<times> settings_row \<Rightarrow> bool" where
  \<comment> \<open>\<open>UNIQUE(category, key_name)\<close>\<close>
  "same_key c k p = (s_category (snd p) = c \<and> s_key_name (snd p) = k)"

definition settings_replace :: "settings_row \<Rightarrow> settings_row table \<Rightarrow> nat \<times> settings_row table" where
  \<comment> \<open>\<open>INSERT OR REPLACE\<close> on a table with a UNIQUE constraint: the new rowid is
      drawn, the rows in conflict are deleted, the row is inserted\<close>
  "settings_replace r t =
     (let i = new_rowid t;
          kept = filter (\<lambda>p. \<not> same_key (s_category r) (s_key_name r) p) (tbl_rows t)
      in (i, \<lparr>tbl_rows = kept @ [(i, r)], tbl_seq = i\<rparr>))"

section \<open>The argument bag\<close>

text \<open>
  \<open>handleCallTool\<close> receives a tool name and an object \<open>args\<close>; each operation reads
  the properties it needs by destructuring. One record holds every property that some
  operation reads.
\<close>

record args =
  arg_category :: "string option"
  arg_key :: "string option"
  arg_value :: "string option"
  arg_description :: "string option"
  arg_component :: "string option"
  arg_tech_stack :: "string option"
  arg_file_paths :: "string option"
  arg_patterns :: "string option"
  arg_environment :: "string option"
  arg_target_host :: "string option"
  arg_deployment_steps :: "string option"
  arg_test_verification :: "string option"
  arg_rollback_steps :: "string option"
  arg_title :: "string option"
  arg_priority :: "int option"
  arg_files_affected :: "string option"
  arg_story_id :: "int option"
  arg_implementation_notes :: "string option"
  arg_severity :: "string option"
  arg_task_id :: "int option"
  arg_impact_level :: "string option"
  arg_related_files :: "string option"
  arg_tags :: "string option"
  arg_content :: "string option"
  arg_focus :: "string option"
  arg_query :: "string option"

definition no_args :: args where
  \<comment> \<open>the empty object\<close>
  "no_args = \<lparr>arg_category = None, arg_key = None, arg_value = None, arg_description = None,
     arg_component = None, arg_tech_stack = None, arg_file_paths = None, arg_patterns = None,
     arg_environment = None, arg_target_host = None, arg_deployment_steps = None,
     arg_test_verification = None, arg_rollback_steps = None, arg_title = None,
     arg_priority = None, arg_files_affected = None, arg_story_id = None,
     arg_implementation_notes = None, arg_severity = None, arg_task_id = None,
     arg_impact_level = None, arg_related_files = None, arg_tags = None, arg_content = None,
     arg_focus = None, arg_query = None\<rparr>"

section \<open>The relational server: write operations\<close>

text \<open>
  \<open>stmt.run\<close> binds an absent property as NULL. A NULL in a \<open>NOT NULL\<close> column without a
  default aborts the statement (also under \<open>OR REPLACE\<close>) with SQLite's message naming
  table and column; the columns are checked in the order of the table. The foreign keys of
  \<open>task\<close> and \<open>defect\<close> are declared but the server never turns their enforcement on.
\<close>

definition bind_not_null :: "string \<Rightarrow> string \<Rightarrow> 'a option \<Rightarrow> ('a \<Rightarrow> error + 'b) \<Rightarrow> error + 'b" where
  "bind_not_null tbl col v f = (case v of None \<Rightarrow> Inl (NotNull tbl col) | Some x \<Rightarrow> f x)"

definition run_insert_settings ::
  "string option \<Rightarrow> string option \<Rightarrow> string option \<Rightarrow> string option \<Rightarrow> nat \<Rightarrow> db \<Rightarrow> error + (nat \<times> db)" where
  \<comment> \<open>\<open>INSERT OR REPLACE INTO settings (category, key_name, value, description, updated_at)
      VALUES (?1, ?2, ?3, ?4, CURRENT_TIMESTAMP)\<close>\<close>
  "run_insert_settings category key_name val description now s =
     bind_not_null ''settings'' ''category'' category (\<lambda>c.
     bind_not_null ''settings'' ''key_name'' key_name (\<lambda>k.
     bind_not_null ''settings'' ''value'' val (\<lambda>v.
       let (i, t) = settings_replace
              \<lparr>s_category = c, s_key_name = k, s_value = v, s_description = description,
               s_created_at = now, s_updated_at = now\<rparr> (settings s)
       in Inr (i, s\<lparr>settings := t\<rparr>))))"

definition learnSetting :: "args \<Rightarrow> nat \<Rightarrow> db \<Rightarrow> error + (string \<times> db)" where
  "learnSetting a now s =
     (case run_insert_settings (arg_category a) (arg_key a) (arg_value a)
             (or_null (arg_description a)) now s of
        Inl e \<Rightarrow> Inl e
      | Inr (i, s') \<Rightarrow>
          Inr (''Learned setting: '' @ js_str (arg_category a) @ ''.'' @ js_str (arg_key a)
                 @ '' = '' @ dquote @ js_str (arg_value a) @ dquote @ nl @ nl
                 @ ''I'' @ apostrophe
                 @ ''ll remember this project configuration for future development assistance.'',
               s'))"

definition run_insert_architecture ::
  "string option \<Rightarrow> string option \<Rightarrow> string option \<Rightarrow> string option \<Rightarrow> string option \<Rightarrow> nat \<Rightarrow> db
     \<Rightarrow> error + (nat \<times> db)" where
  \<comment> \<open>\<open>INSERT OR REPLACE INTO architecture (component, description, tech_stack, file_paths,
      patterns, updated_at)\<close>: the table has no UNIQUE constraint, and the statement gives
      no id, so no row is ever in conflict\<close>
  "run_insert_architecture component description tech_stack file_paths patterns now s =
     bind_not_null ''architecture'' ''component'' component (\<lambda>c.
     bind_not_null ''architecture'' ''description'' description (\<lambda>d.
     bind_not_null ''architecture'' ''tech_stack'' tech_stack (\<lambda>t.
       let (i, tb) = tbl_insert
              \<lparr>ar_component = c, ar_description = d, ar_tech_stack = t, ar_file_paths = file_paths,
               ar_patterns = patterns, ar_created_at = now, ar_updated_at = now\<rparr> (architecture s)
       in Inr (i, s\<lparr>architecture := tb\<rparr>))))"

definition learnArchitecture :: "args \<Rightarrow> nat \<Rightarrow> db \<Rightarrow> error + (string \<times> db)" where
  "learnArchitecture a now s =
     (case run_insert_architecture (arg_component a) (arg_description a) (arg_tech_stack a)
             (or_null (arg_file_paths a)) (or_null (arg_patterns a)) now s of
        Inl e \<Rightarrow> Inl e
      | Inr (i, s') \<Rightarrow>
          Inr (''Learned architecture: '' @ js_str (arg_component a) @ nl @ nl
                 @ ''Tech stack: '' @ js_str (arg_tech_stack a) @ nl @ nl
                 @ ''I'' @ apostrophe
                 @ ''ll use this knowledge for future architectural decisions and code analysis.'',
               s'))"

definition run_insert_deployment ::
  "string option \<Rightarrow> string option \<Rightarrow> string option \<Rightarrow> string option \<Rightarrow> string option \<Rightarrow> nat \<Rightarrow> db
     \<Rightarrow> error + (nat \<times> db)" where
  \<comment> \<open>\<open>INSERT OR REPLACE INTO deployment (environment, target_host, deployment_steps,
      test_verification, rollback_steps, updated_at)\<close>: no UNIQUE constraint either\<close>
  "run_insert_deployment environment target_host deployment_steps test_verification rollback_steps
       now s =
     bind_not_null ''deployment'' ''environment'' environment (\<lambda>e.
     bind_not_null ''deployment'' ''deployment_steps'' deployment_steps (\<lambda>d.
       let (i, tb) = tbl_insert
              \<lparr>dp_environment = e, dp_target_host = target_host, dp_deployment_steps = d,
               dp_test_verification = test_verification, dp_rollback_steps = rollback_steps,
               dp_last_deployed_at = None, dp_created_at = now, dp_updated_at = now\<rparr>
              (deployment s)
       in Inr (i, s\<lparr>deployment := tb\<rparr>)))"

definition learnDeployment :: "args \<Rightarrow> nat \<Rightarrow> db \<Rightarrow> error + (string \<times> db)" where
  "learnDeployment a now s =
     (case run_insert_deployment (arg_environment a) (or_null (arg_target_host a))
             (arg_deployment_steps a) (or_null (arg_test_verification a))
             (or_null (arg_rollback_steps a)) now s of
        Inl e \<Rightarrow> Inl e
      | Inr (i, s') \<Rightarrow>
          Inr (''Learned deployment for '' @ js_str (arg_environment a) @ nl @ nl
                 @ ''I'' @ apostrophe
                 @ ''ll remember these deployment procedures for future releases.'',
               s'))"

definition run_insert_story ::
  "string option \<Rightarrow> string option \<Rightarrow> int \<Rightarrow> string option \<Rightarrow> nat \<Rightarrow> db \<Rightarrow> error + (nat \<times> db)" where
  \<comment> \<open>\<open>INSERT INTO story (title, description, priority, files_affected)\<close>\<close>
  "run_insert_story title description priority files_affected now s =
     bind_not_null ''story'' ''title'' title (\<lambda>t.
     bind_not_null ''story'' ''description'' description (\<lambda>d.
       let (i, tb) = tbl_insert
              \<lparr>st_title = t, st_description = d, st_status = ''active'', st_priority = priority,
               st_files_affected = files_affected, st_created_at = now, st_updated_at = now,
               st_completed_at = None\<rparr> (story s)
       in Inr (i, s\<lparr>story := tb\<rparr>)))"

definition createStory :: "args \<Rightarrow> nat \<Rightarrow> db \<Rightarrow> error + (string \<times> db)" where
  "createStory a now s =
     (case run_insert_story (arg_title a) (arg_description a) (num_or_default (arg_priority a) 3)
             (or_null (arg_files_affected a)) now s of
        Inl e \<Rightarrow> Inl e
      | Inr (i, s') \<Rightarrow>
          Inr (''Created story #'' @ str_of_nat i @ '': '' @ js_str (arg_title a) @ nl @ nl
                 @ ''This replaces traditional GitHub PRs with intelligent project memory.'',
               s'))"

definition run_insert_task ::
  "int option \<Rightarrow> string option \<Rightarrow> string option \<Rightarrow> string option \<Rightarrow> string option \<Rightarrow> nat \<Rightarrow> db
     \<Rightarrow> error + (nat \<times> db)" where
  \<comment> \<open>\<open>INSERT INTO task (story_id, title, description, files_affected,
      implementation_notes)\<close>\<close>
  "run_insert_task story_id title description files_affected implementation_notes now s =
     bind_not_null ''task'' ''title'' title (\<lambda>t.
     bind_not_null ''task'' ''description'' description (\<lambda>d.
       let (i, tb) = tbl_insert
              \<lparr>tk_story_id = story_id, tk_title = t, tk_description = d, tk_status = ''todo'',
               tk_files_affected = files_affected, tk_implementation_notes = implementation_notes,
               tk_created_at = now, tk_updated_at = now, tk_completed_at = None\<rparr> (task s)
       in Inr (i, s\<lparr>task := tb\<rparr>)))"

definition createTask :: "args \<Rightarrow> nat \<Rightarrow> db \<Rightarrow> error + (string \<times> db)" where
  "createTask a now s =
     (case run_insert_task (num_or_null (arg_story_id a)) (arg_title a) (arg_description a)
             (or_null (arg_files_affected a)) (or_null (arg_implementation_notes a)) now s of
        Inl e \<Rightarrow> Inl e
      | Inr (i, s') \<Rightarrow>
          Inr (''Created task #'' @ str_of_nat i @ '': '' @ js_str (arg_title a) @ nl @ nl
                 @ (case num_or_null (arg_story_id a) of
                      Some sid \<Rightarrow> ''Linked to story #'' @ str_of_int sid
                    | None \<Rightarrow> ''Standalone task''),
               s'))"

definition run_insert_defect ::
  "string option \<Rightarrow> string option \<Rightarrow> string \<Rightarrow> string option \<Rightarrow> int option \<Rightarrow> int option \<Rightarrow> nat \<Rightarrow> db
     \<Rightarrow> error + (nat \<times> db)" where
  \<comment> \<open>\<open>INSERT INTO defect (title, description, severity, files_affected, story_id,
      task_id)\<close>\<close>
  "run_insert_defect title description severity files_affected story_id task_id now s =
     bind_not_null ''defect'' ''title'' title (\<lambda>t.
     bind_not_null ''defect'' ''description'' description (\<lambda>d.
       let (i, tb) = tbl_insert
              \<lparr>df_story_id = story_id, df_task_id = task_id, df_title = t, df_description = d,
               df_severity = severity, df_status = ''open'', df_files_affected = files_affected,
               df_fix_description = None, df_created_at = now, df_resolved_at = None\<rparr> (defect s)
       in Inr (i, s\<lparr>defect := tb\<rparr>)))"

definition logDefect :: "args \<Rightarrow> nat \<Rightarrow> db \<Rightarrow> error + (string \<times> db)" where
  "logDefect a now s =
     (case run_insert_defect (arg_title a) (arg_description a) (or_default (arg_severity a) ''medium'')
             (or_null (arg_files_affected a)) (num_or_null (arg_story_id a))
             (num_or_null (arg_task_id a)) now s of
        Inl e \<Rightarrow> Inl e
      | Inr (i, s') \<Rightarrow>
          Inr (''Logged defect #'' @ str_of_nat i @ '': '' @ js_str (arg_title a) @ nl @ nl
                 @ ''Severity: '' @ or_default (arg_severity a) ''medium'',
               s'))"

definition run_insert_lessons ::
  "string option \<Rightarrow> string option \<Rightarrow> string option \<Rightarrow> string \<Rightarrow> string option \<Rightarrow> string option \<Rightarrow> nat
     \<Rightarrow> db \<Rightarrow> error + (nat \<times> db)" where
  \<comment> \<open>\<open>INSERT INTO lessons (title, description, category, impact_level, related_files,
      tags)\<close>\<close>
  "run_insert_lessons title description category impact_level related_files tags now s =
     bind_not_null ''lessons'' ''title'' title (\<lambda>t.
     bind_not_null ''lessons'' ''description'' description (\<lambda>d.
     bind_not_null ''lessons'' ''category'' category (\<lambda>c.
       let (i, tb) = tbl_insert
              \<lparr>ls_title = t, ls_description = d, ls_category = c, ls_impact_level = impact_level,
               ls_related_files = related_files, ls_tags = tags, ls_created_at = now\<rparr> (lessons s)
       in Inr (i, s\<lparr>lessons := tb\<rparr>))))"

definition recordLesson :: "args \<Rightarrow> nat \<Rightarrow> db \<Rightarrow> error + (string \<times> db)" where
  "recordLesson a now s =
     (case run_insert_lessons (arg_title a) (arg_description a) (arg_category a)
             (or_default (arg_impact_level a) ''medium'') (or_null (arg_related_files a))
             (or_null (arg_tags a)) now s of
        Inl e \<Rightarrow> Inl e
      | Inr (i, s') \<Rightarrow>
          Inr (''Recorded lesson: '' @ js_str (arg_title a) @ nl @ nl
                 @ ''Category: '' @ js_str (arg_category a) @ nl
                 @ ''Impact: '' @ or_default (arg_impact_level a) ''medium'' @ nl @ nl
                 @ ''This wisdom will guide future development decisions.'',
               s'))"

definition run_insert_knowledge ::
  "string option \<Rightarrow> string option \<Rightarrow> string \<Rightarrow> string option \<Rightarrow> nat \<Rightarrow> db \<Rightarrow> error + (nat \<times> db)" where
  \<comment> \<open>\<open>INSERT INTO knowledge (title, content, category, tags)\<close>\<close>
  "run_insert_knowledge title content category tags now s =
     bind_not_null ''knowledge'' ''title'' title (\<lambda>t.
     bind_not_null ''knowledge'' ''content'' content (\<lambda>c.
       let (i, tb) = tbl_insert
              \<lparr>kn_title = t, kn_content = c, kn_category = category, kn_tags = tags,
               kn_created_at = now, kn_updated_at = now\<rparr> (knowledge s)
       in Inr (i, s\<lparr>knowledge := tb\<rparr>)))"

definition addKnowledge :: "args \<Rightarrow> nat \<Rightarrow> db \<Rightarrow> error + (string \<times> db)" where
  "addKnowledge a now s =
     (case run_insert_knowledge (arg_title a) (arg_content a) (or_default (arg_category a) ''general'')
             (or_null (arg_tags a)) now s of
        Inl e \<Rightarrow> Inl e
      | Inr (i, s') \<Rightarrow>
          Inr (''Added knowledge: '' @ js_str (arg_title a) @ nl @ nl
                 @ ''This information is now part of my project memory.'',
               s'))"

section \<open>The relational server: queries\<close>

text \<open>
  \<open>ORDER BY c DESC\<close> is a sort on the column; SQL leaves the order of rows with equal keys
  open, and the model keeps them in rowid order. \<open>ORDER BY a, b DESC\<close> sorts on \<open>b\<close> and
  then, stably, on \<open>a\<close>. Texts compare in the binary collation.
\<close>

definition order_desc :: "('a \<Rightarrow> nat) \<Rightarrow> 'a list \<Rightarrow> 'a list" where
  "order_desc f xs = rev (sort_key f (rev xs))"

fun like :: "string \<Rightarrow> string \<Rightarrow> bool" where
  \<comment> \<open>\<open>text LIKE pattern\<close>, pattern first: \<open>%\<close> stands for any run of characters, \<open>_\<close> for
      any one character, and any other character for itself, the letters A to Z in either
      case\<close>
  "like [] t = (t = [])"
| "like (p # ps) t =
     (if p = CHR ''%'' then like ps t \<or> (case t of [] \<Rightarrow> False | c # ts \<Rightarrow> like (p # ps) ts)
      else (case t of
              [] \<Rightarrow> False
            | c # ts \<Rightarrow> (p = CHR ''_'' \<or> sql_lower_char p = sql_lower_char c) \<and> like ps ts))"

record status_view =
  active_stories :: nat
  pending_tasks :: nat
  open_defects :: nat
  lessons_count :: nat
  start_command :: "string option"
  test_command :: "string option"

definition setting_value :: "string \<Rightarrow> string \<Rightarrow> db \<Rightarrow> string option" where
  \<comment> \<open>\<open>SELECT value FROM settings WHERE category = c AND key_name = k LIMIT 1\<close>\<close>
  "setting_value c k s =
     (case filter (same_key c k) (tbl_rows (settings s)) of
        [] \<Rightarrow> None
      | p # _ \<Rightarrow> Some (s_value (snd p)))"

definition pending :: "nat \<times> task_row \<Rightarrow> bool" where
  "pending p = (tk_status (snd p) = ''todo'' \<or> tk_status (snd p) = ''in_progress'')"

definition project_status :: "db \<Rightarrow> status_view" where
  \<comment> \<open>the view \<open>project_status\<close>\<close>
  "project_status s =
     \<lparr>active_stories = length (filter (\<lambda>p. st_status (snd p) = ''active'') (tbl_rows (story s))),
      pending_tasks = length (filter pending (tbl_rows (task s))),
      open_defects = length (filter (\<lambda>p. df_status (snd p) = ''open'') (tbl_rows (defect s))),
      lessons_count = length (tbl_rows (lessons s)),
      start_command = setting_value ''start'' ''command'' s,
      test_command = setting_value ''test'' ''command'' s\<rparr>"

definition truthy :: "string option \<Rightarrow> bool" where
  "truthy v = (case v of None \<Rightarrow> False | Some x \<Rightarrow> x \<noteq> [])"

definition status_section :: "db \<Rightarrow> string list" where
  "status_section s =
     (let status = project_status s in
      [''## Project Status'',
       ''- Active Stories: '' @ str_of_nat (active_stories status),
       ''- Pending Tasks: '' @ str_of_nat (pending_tasks status),
       ''- Open Defects: '' @ str_of_nat (open_defects status),
       ''- Lessons Learned: '' @ str_of_nat (lessons_count status)]
      @ (if truthy (start_command status)
         then [''- Start Command: `'' @ js_str (start_command status) @ ''`''] else [])
      @ (if truthy (test_command status)
         then [''- Test Command: `'' @ js_str (test_command status) @ ''`''] else []))"

definition settings_section :: "db \<Rightarrow> string list" where
  "settings_section s =
     (let rows = sort_key (\<lambda>p. (s_category (snd p), s_key_name (snd p))) (tbl_rows (settings s)) in
      if length rows > 0
      then (bsn @ ''## Key Settings'')
           # map (\<lambda>p. ''- '' @ s_category (snd p) @ ''.'' @ s_key_name (snd p) @ '': `''
                         @ s_value (snd p) @ ''`'') rows
      else [])"

definition architecture_section :: "db \<Rightarrow> string list" where
  "architecture_section s =
     (let arch = sort_key (\<lambda>p. ar_component (snd p)) (tbl_rows (architecture s)) in
      if length arch > 0
      then (bsn @ ''## Architecture'')
           # concat (map (\<lambda>p. [''- **'' @ ar_component (snd p) @ ''**: '' @ ar_description (snd p),
                                ''  - Tech: '' @ ar_tech_stack (snd p)]) arch)
      else [])"

definition stories_header :: string where
  "stories_header = bsn @ ''## Active Stories''"

definition tasks_header :: string where
  "tasks_header = bsn @ ''## Pending Tasks''"

definition lessons_header :: string where
  "lessons_header = bsn @ ''## Recent Lessons''"

definition current_section :: "db \<Rightarrow> string list" where
  "current_section s =
     (let activeStories =
            take 3 (sort_key (\<lambda>p. st_priority (snd p))
                      (order_desc (\<lambda>p. st_created_at (snd p))
                         (filter (\<lambda>p. st_status (snd p) = ''active'') (tbl_rows (story s)))));
          pendingTasks =
            take 5 (order_desc (\<lambda>p. tk_created_at (snd p)) (filter pending (tbl_rows (task s))))
      in (if length activeStories > 0
          then stories_header
               # map (\<lambda>p. ''- **Story #'' @ str_of_nat (fst p) @ ''**: '' @ st_title (snd p))
                   activeStories
          else [])
       @ (if length pendingTasks > 0
          then tasks_header
               # map (\<lambda>p. ''- **Task #'' @ str_of_nat (fst p) @ ''**: '' @ tk_title (snd p)
                             @ '' ('' @ tk_status (snd p) @ '')'') pendingTasks
          else []))"

definition lesson_line :: "nat \<times> lessons_row \<Rightarrow> string" where
  "lesson_line p =
     ''- **'' @ ls_title (snd p) @ ''** ('' @ ls_category (snd p) @ ''): ''
       @ substring0 100 (ls_description (snd p)) @ ''...''"

definition recent_section :: "db \<Rightarrow> string list" where
  "recent_section s =
     (let recentLessons = take 3 (order_desc (\<lambda>p. ls_created_at (snd p)) (tbl_rows (lessons s))) in
      if length recentLessons > 0 then lessons_header # map lesson_line recentLessons else [])"

definition context_lines :: "string \<Rightarrow> db \<Rightarrow> string list" where
  \<comment> \<open>the array \<open>context\<close> of \<open>getContext\<close> when it is joined\<close>
  "context_lines focus s =
     status_section s
     @ (if focus = ''all'' \<or> focus = ''settings'' then settings_section s else [])
     @ (if focus = ''all'' \<or> focus = ''architecture'' then architecture_section s else [])
     @ (if focus = ''all'' \<or> focus = ''current'' then current_section s else [])
     @ (if focus = ''all'' \<or> focus = ''recent'' then recent_section s else [])"

definition focus_of :: "args \<Rightarrow> string" where
  \<comment> \<open>\<open>const { focus = 'all' } = args\<close>\<close>
  "focus_of a = (case arg_focus a of None \<Rightarrow> ''all'' | Some f \<Rightarrow> f)"

definition getContext :: "args \<Rightarrow> db \<Rightarrow> string" where
  "getContext a s = join bsn (context_lines (focus_of a) s)"

record found =
  f_type :: string
  f_id :: nat
  f_title :: string
  f_description :: string
  f_created_at :: nat

definition matches :: "string \<Rightarrow> string \<Rightarrow> string \<Rightarrow> bool" where
  \<comment> \<open>\<open>LOWER(title) LIKE ?1 OR LOWER(body) LIKE ?1\<close>\<close>
  "matches searchTerm title body =
     (like searchTerm (sql_lower title) \<or> like searchTerm (sql_lower body))"

definition as_found ::
  "string \<Rightarrow> ('r \<Rightarrow> string) \<Rightarrow> ('r \<Rightarrow> string) \<Rightarrow> ('r \<Rightarrow> nat) \<Rightarrow> nat \<times> 'r \<Rightarrow> found" where
  \<comment> \<open>\<open>SELECT tag as type, id, title, body as description, created_at\<close>\<close>
  "as_found tag title body created p =
     \<lparr>f_type = tag, f_id = fst p, f_title = title (snd p), f_description = body (snd p),
      f_created_at = created (snd p)\<rparr>"

definition select_found ::
  "string \<Rightarrow> ('r \<Rightarrow> string) \<Rightarrow> ('r \<Rightarrow> string) \<Rightarrow> ('r \<Rightarrow> nat) \<Rightarrow> string \<Rightarrow> 'r table \<Rightarrow> found list" where
  \<comment> \<open>\<open>SELECT ... FROM t WHERE LOWER(title) LIKE ?1 OR LOWER(body) LIKE ?1
      ORDER BY created_at DESC LIMIT 5\<close>\<close>
  "select_found tag title body created searchTerm t =
     map (as_found tag title body created)
       (take 5 (order_desc (\<lambda>p. created (snd p))
                  (filter (\<lambda>p. matches searchTerm (title (snd p)) (body (snd p))) (tbl_rows t))))"

definition search_results :: "string \<Rightarrow> db \<Rightarrow> found list" where
  \<comment> \<open>the array \<open>results\<close> of \<open>search\<close>\<close>
  "search_results query s =
     (let searchTerm = ''%'' @ toLowerCase query @ ''%'' in
      select_found ''story'' st_title st_description st_created_at searchTerm (story s)
      @ select_found ''task'' tk_title tk_description tk_created_at searchTerm (task s)
      @ select_found ''lesson'' ls_title ls_description ls_created_at searchTerm (lessons s)
      @ select_found ''knowledge'' kn_title kn_content kn_created_at searchTerm (knowledge s))"

definition result_lines :: "found \<Rightarrow> string list" where
  "result_lines r =
     [''**'' @ toUpperCase (f_type r) @ '' #'' @ str_of_nat (f_id r) @ ''**: '' @ f_title r,
      substring0 150 (f_description r) @ ''...'' @ bsn]"

definition no_results :: "string \<Rightarrow> string" where
  "no_results query = ''No results found for '' @ dquote @ query @ dquote"

definition search_text :: "string \<Rightarrow> db \<Rightarrow> string" where
  "search_text query s =
     (let results = search_results query s in
      if length results = 0 then no_results query
      else join bsn ((''## Search Results for '' @ dquote @ query @ dquote @ bsn)
                      # concat (map result_lines results)))"

definition search :: "args \<Rightarrow> db \<Rightarrow> error + string" where
  \<comment> \<open>\<open>query.toLowerCase()\<close> is evaluated outside the \<open>try\<close> block\<close>
  "search a s =
     (case arg_query a of
        None \<Rightarrow> Inl (TypeError ''query.toLowerCase'')
      | Some query \<Rightarrow> Inr (search_text query s))"

definition handleCallTool :: "string \<Rightarrow> args \<Rightarrow> nat \<Rightarrow> db \<Rightarrow> error + (string \<times> db)" where
  "handleCallTool name a now s =
     (if name = ''ccmem_learn_setting'' then learnSetting a now s
      else if name = ''ccmem_learn_architecture'' then learnArchitecture a now s
      else if name = ''ccmem_learn_deployment'' then learnDeployment a now s
      else if name = ''ccmem_create_story'' then createStory a now s
      else if name = ''ccmem_create_task'' then createTask a now s
      else if name = ''ccmem_log_defect'' then logDefect a now s
      else if name = ''ccmem_record_lesson'' then recordLesson a now s
      else if name = ''ccmem_add_knowledge'' then addKnowledge a now s
      else if name = ''ccmem_get_context'' then Inr (getContext a s, s)
      else if name = ''ccmem_search''
        then (case search a s of Inl e \<Rightarrow> Inl e | Inr text \<Rightarrow> Inr (text, s))
      else Inl (UnknownTool name))"

section \<open>The fallback server: server-node.js\<close>

text \<open>
  The store is the object \<open>this.data\<close>: eight arrays. The server writes the array
  \<open>settings\<close> only; of the rows of the other arrays it reads at most the property
  \<open>status\<close>, so such a row is a list of properties with text values. \<open>learnSetting\<close> reads
  the clock three times, for \<open>id\<close>, \<open>created_at\<close> and \<open>updated_at\<close>.
\<close>

record json_setting =
  j_id :: nat
  j_category :: "string option"
  j_key_name :: "string option"
  j_value :: "string option"
  j_description :: "string option"
  j_created_at :: nat
  j_updated_at :: nat

type_synonym json_row = "(string \<times> string) list"

record json_data =
  d_settings :: "json_setting list"
  d_architecture :: "json_row list"
  d_deployment :: "json_row list"
  d_story :: "json_row list"
  d_task :: "json_row list"
  d_defect :: "json_row list"
  d_lessons :: "json_row list"
  d_knowledge :: "json_row list"

definition empty_data :: json_data where
  "empty_data = \<lparr>d_settings = [], d_architecture = [], d_deployment = [], d_story = [],
     d_task = [], d_defect = [], d_lessons = [], d_knowledge = []\<rparr>"

record date_reads =
  date_now :: nat
  date_created :: nat
  date_updated :: nat

definition node_same_key :: "string option \<Rightarrow> string option \<Rightarrow> json_setting \<Rightarrow> bool" where
  \<comment> \<open>\<open>s.category === category && s.key_name === key\<close>\<close>
  "node_same_key category key r = (j_category r = category \<and> j_key_name r = key)"

definition node_learnSetting :: "args \<Rightarrow> date_reads \<Rightarrow> json_data \<Rightarrow> string \<times> json_data" where
  "node_learnSetting a clk d =
     (let kept = filter (\<lambda>r. \<not> node_same_key (arg_category a) (arg_key a) r) (d_settings d);
          row = \<lparr>j_id = date_now clk, j_category = arg_category a, j_key_name = arg_key a,
                 j_value = arg_value a, j_description = or_null (arg_description a),
                 j_created_at = date_created clk, j_updated_at = date_updated clk\<rparr>
      in (''Learned setting: '' @ js_str (arg_category a) @ ''.'' @ js_str (arg_key a)
            @ '' = '' @ dquote @ js_str (arg_value a) @ dquote @ nl @ nl
            @ ''I'' @ apostrophe
            @ ''ll remember this project configuration for future development assistance.'',
          d\<lparr>d_settings := kept @ [row]\<rparr>))"

definition node_status_section :: "json_data \<Rightarrow> string list" where
  "node_status_section d =
     (let settingsCount = length (d_settings d);
          architectureCount = length (d_architecture d);
          storiesCount = length (filter (\<lambda>r. map_of r ''status'' = Some ''active'') (d_story d))
      in [''## Project Status'',
          ''- Settings Learned: '' @ str_of_nat settingsCount,
          ''- Architecture Components: '' @ str_of_nat architectureCount,
          ''- Active Stories: '' @ str_of_nat storiesCount])"

definition node_settings_section :: "json_data \<Rightarrow> string list" where
  "node_settings_section d =
     (if length (d_settings d) > 0
      then (bsn @ ''## Key Settings'')
           # map (\<lambda>r. ''- '' @ js_str (j_category r) @ ''.'' @ js_str (j_key_name r) @ '': `''
                         @ js_str (j_value r) @ ''`'') (d_settings d)
      else [])"

definition node_context_lines :: "string \<Rightarrow> json_data \<Rightarrow> string list" where
  "node_context_lines focus d =
     node_status_section d
     @ (if focus = ''all'' \<or> focus = ''settings'' then node_settings_section d else [])"

definition node_getContext :: "args \<Rightarrow> json_data \<Rightarrow> string" where
  "node_getContext a d = join bsn (node_context_lines (focus_of a) d)"

definition node_handleCallTool ::
  "string \<Rightarrow> args \<Rightarrow> date_reads \<Rightarrow> json_data \<Rightarrow> error + (string \<times> json_data)" where
  "node_handleCallTool name a clk d =
     (if name = ''ccmem_learn_setting'' then Inr (node_learnSetting a clk d)
      else if name = ''ccmem_get_context'' then Inr (node_getContext a d, d)
      else Inl (UnknownTool name))"

section \<open>The request loop\<close>

text \<open>
  \<open>handleMCPRequest\<close> answers one request at a time: the result of \<open>handleCallTool\<close>, or
  the message of the error it threw, after which the server goes on with the store as
  it was. A request carries, besides the tool name and the arguments, the clock reading
  its statement sees.
\<close>

type_synonym call = "string \<times> args \<times> nat"

definition step :: "call \<Rightarrow> db \<Rightarrow> db" where
  "step c s =
     (case c of (name, a, now) \<Rightarrow>
        (case handleCallTool name a now s of Inl e \<Rightarrow> s | Inr (text, s') \<Rightarrow> s'))"

definition reply :: "call \<Rightarrow> db \<Rightarrow> error + string" where
  "reply c s =
     (case c of (name, a, now) \<Rightarrow>
        (case handleCallTool name a now s of Inl e \<Rightarrow> Inl e | Inr (text, s') \<Rightarrow> Inr text))"

fun run :: "call list \<Rightarrow> db \<Rightarrow> db" where
  "run [] s = s"
| "run (c # cs) s = run cs (step c s)"

fun replies :: "call list \<Rightarrow> db \<Rightarrow> (error + string) list" where
  "replies [] s = []"
| "replies (c # cs) s = reply c s # replies cs (step c s)"

type_synonym node_call = "string \<times> args \<times> date_reads"

definition node_step :: "node_call \<Rightarrow> json_data \<Rightarrow> json_data" where
  "node_step c d =
     (case c of (name, a, clk) \<Rightarrow>
        (case node_handleCallTool name a clk d of Inl e \<Rightarrow> d | Inr (text, d') \<Rightarrow> d'))"

definition node_reply :: "node_call \<Rightarrow> json_data \<Rightarrow> error + string" where
  "node_reply c d =
     (case c of (name, a, clk) \<Rightarrow>
        (case node_handleCallTool name a clk d of Inl e \<Rightarrow> Inl e | Inr (text, d') \<Rightarrow> Inr text))"

fun node_run :: "node_call list \<Rightarrow> json_data \<Rightarrow> json_data" where
  "node_run [] d = d"
| "node_run (c # cs) d = node_run cs (node_step c d)"

fun node_replies :: "node_call list \<Rightarrow> json_data \<Rightarrow> (error + string) list" where
  "node_replies [] d = []"
| "node_replies (c # cs) d = node_reply c d # node_replies cs (node_step c d)"

section \<open>Notions of the specification\<close>

subsection \<open>Rows of a key\<close>

definition setting_rows :: "string \<Rightarrow> string \<Rightarrow> db \<Rightarrow> settings_row list" where
  \<comment> \<open>the Setting rows of one (category, key) in the relational store\<close>
  "setting_rows c k s = map snd (filter (same_key c k) (tbl_rows (settings s)))"

definition node_setting_rows :: "string option \<Rightarrow> string option \<Rightarrow> json_data \<Rightarrow> json_setting list" where
  \<comment> \<open>the same in the fallback store\<close>
  "node_setting_rows c k d = filter (node_same_key c k) (d_settings d)"

definition other_key :: "args \<Rightarrow> nat \<times> settings_row \<Rightarrow> bool" where
  \<comment> \<open>a Setting row whose (category, key) differs from the one the arguments write\<close>
  "other_key a p =
     (Some (s_category (snd p)) \<noteq> arg_category a \<or> Some (s_key_name (snd p)) \<noteq> arg_key a)"

definition components :: "db \<Rightarrow> string list" where
  \<comment> \<open>the components of the ArchitectureNote rows, in table order\<close>
  "components s = map (\<lambda>p. ar_component (snd p)) (tbl_rows (architecture s))"


subsection \<open>Identifiers\<close>

datatype entity =
  Setting | ArchitectureNote | DeploymentProcedure | Story | Task | Defect | Lesson | KnowledgeNote

fun ids_of :: "entity \<Rightarrow> db \<Rightarrow> nat list" where
  "ids_of Setting s = ids (settings s)"
| "ids_of ArchitectureNote s = ids (architecture s)"
| "ids_of DeploymentProcedure s = ids (deployment s)"
| "ids_of Story s = ids (story s)"
| "ids_of Task s = ids (task s)"
| "ids_of Defect s = ids (defect s)"
| "ids_of Lesson s = ids (lessons s)"
| "ids_of KnowledgeNote s = ids (knowledge s)"

fun seq_of :: "entity \<Rightarrow> db \<Rightarrow> nat" where
  "seq_of Setting s = tbl_seq (settings s)"
| "seq_of ArchitectureNote s = tbl_seq (architecture s)"
| "seq_of DeploymentProcedure s = tbl_seq (deployment s)"
| "seq_of Story s = tbl_seq (story s)"
| "seq_of Task s = tbl_seq (task s)"
| "seq_of Defect s = tbl_seq (defect s)"
| "seq_of Lesson s = tbl_seq (lessons s)"
| "seq_of KnowledgeNote s = tbl_seq (knowledge s)"

definition wf_table :: "'r table \<Rightarrow> bool" where
  \<comment> \<open>the primary key: rowids strictly increasing along the table, none above the
      table's entry in \<open>sqlite_sequence\<close>\<close>
  "wf_table t = (sorted_wrt (<) (ids t) \<and> list_all (\<lambda>i. i \<le> tbl_seq t) (ids t))"

definition wf_db :: "db \<Rightarrow> bool" where
  "wf_db s =
     (wf_table (settings s) \<and> wf_table (architecture s) \<and> wf_table (deployment s)
      \<and> wf_table (story s) \<and> wf_table (task s) \<and> wf_table (defect s)
      \<and> wf_table (lessons s) \<and> wf_table (knowledge s))"

definition fresh_ids :: "entity \<Rightarrow> db \<Rightarrow> db \<Rightarrow> nat list" where
  \<comment> \<open>the ids an operation assigned: those in the table after it that were not there
      before\<close>
  "fresh_ids e s s' = filter (\<lambda>i. i \<notin> set (ids_of e s)) (ids_of e s')"

fun assigned :: "entity \<Rightarrow> call list \<Rightarrow> db \<Rightarrow> nat list" where
  \<comment> \<open>the ids assigned within an entity type by a sequence of requests, in order\<close>
  "assigned e [] s = []"
| "assigned e (c # cs) s = fresh_ids e s (step c s) @ assigned e cs (step c s)"

definition rows_stable :: "'r table \<Rightarrow> 'r table \<Rightarrow> bool" where
  \<comment> \<open>every row of the later table is a row of the earlier one, id and contents, or has
      an id above every id assigned before\<close>
  "rows_stable t t' = list_all (\<lambda>p. p \<in> set (tbl_rows t) \<or> tbl_seq t < fst p) (tbl_rows t')"

definition keeps :: "'r table \<Rightarrow> 'r table \<Rightarrow> bool" where
  \<comment> \<open>the later table is the earlier one with rows added at the end\<close>
  "keeps t t' = prefix (tbl_rows t) (tbl_rows t')"

definition stable :: "db \<Rightarrow> db \<Rightarrow> bool" where
  "stable s s' =
     (rows_stable (settings s) (settings s') \<and> keeps (architecture s) (architecture s')
      \<and> keeps (deployment s) (deployment s') \<and> keeps (story s) (story s')
      \<and> keeps (task s) (task s') \<and> keeps (defect s) (defect s')
      \<and> keeps (lessons s) (lessons s') \<and> keeps (knowledge s) (knowledge s'))"

subsection \<open>Previews\<close>

definition preview :: "nat \<Rightarrow> string \<Rightarrow> string" where
  \<comment> \<open>the body when it has at most \<open>n\<close> characters, else its first \<open>n\<close> characters;
      then the ellipsis marker\<close>
  "preview n body = (if length body \<le> n then body else take n body) @ ''...''"

subsection \<open>Search\<close>










subsection \<open>The two servers side by side\<close>

type_synonym setting_tuple = "string option \<times> string option \<times> string option \<times> string option"

definition setting_tuple :: "nat \<times> settings_row \<Rightarrow> setting_tuple" where
  \<comment> \<open>what a caller has written into a Setting row of the relational store: category,
      key, value, description\<close>
  "setting_tuple p =
     (Some (s_category (snd p)), Some (s_key_name (snd p)), Some (s_value (snd p)),
      s_description (snd p))"

definition node_setting_tuple :: "json_setting \<Rightarrow> setting_tuple" where
  \<comment> \<open>the same of a Setting row of the fallback store\<close>
  "node_setting_tuple r = (j_category r, j_key_name r, j_value r, j_description r)"

definition same_settings :: "db \<Rightarrow> json_data \<Rightarrow> bool" where
  \<comment> \<open>the two stores hold the same Settings\<close>
  "same_settings s d =
     (set (map setting_tuple (tbl_rows (settings s))) = set (map node_setting_tuple (d_settings d)))"

definition complete_setting :: "args \<Rightarrow> bool" where
  \<comment> \<open>the required properties of a Setting write are present\<close>
  "complete_setting a = (arg_category a \<noteq> None \<and> arg_key a \<noteq> None \<and> arg_value a \<noteq> None)"

type_synonym setting_write = "args \<times> nat \<times> date_reads"

definition sql_calls :: "setting_write list \<Rightarrow> call list" where
  \<comment> \<open>a sequence of Setting writes as requests to the relational server\<close>
  "sql_calls ws = map (\<lambda>w. (''ccmem_learn_setting'', fst w, fst (snd w))) ws"

definition node_calls :: "setting_write list \<Rightarrow> node_call list" where
  \<comment> \<open>the same sequence as requests to the fallback server\<close>
  "node_calls ws = map (\<lambda>w. (''ccmem_learn_setting'', fst w, snd (snd w))) ws"

section \<open>Concrete requests and stores\<close>

definition test_cmd :: "string \<Rightarrow> args" where
  \<comment> \<open>\<open>{category: "test", key: "command", value: v}\<close>\<close>
  "test_cmd v =
     no_args\<lparr>arg_category := Some ''test'', arg_key := Some ''command'', arg_value := Some v\<rparr>"

definition start_cmd :: "string \<Rightarrow> args" where
  "start_cmd v =
     no_args\<lparr>arg_category := Some ''start'', arg_key := Some ''command'', arg_value := Some v\<rparr>"

definition api_args :: args where
  \<comment> \<open>\<open>{component: "API", description: "REST API", tech_stack: "Node"}\<close>\<close>
  "api_args = no_args\<lparr>arg_component := Some ''API'', arg_description := Some ''REST API'',
     arg_tech_stack := Some ''Node''\<rparr>"

definition no_category :: args where
  \<comment> \<open>\<open>{key: "command", value: "npm test"}\<close>: the required category is missing\<close>
  "no_category = no_args\<lparr>arg_key := Some ''command'', arg_value := Some ''npm test''\<rparr>"

definition task_args :: "int \<Rightarrow> args" where
  \<comment> \<open>\<open>{story_id: n, title: "Wire callback route", description: "add the route"}\<close>\<close>
  "task_args n = no_args\<lparr>arg_story_id := Some n, arg_title := Some ''Wire callback route'',
     arg_description := Some ''add the route''\<rparr>"

definition story_args :: args where
  \<comment> \<open>\<open>{title: "Add login", description: "Implement OAuth login flow"}\<close>\<close>
  "story_args = no_args\<lparr>arg_title := Some ''Add login'',
     arg_description := Some ''Implement OAuth login flow''\<rparr>"

definition lesson_args :: args where
  "lesson_args = no_args\<lparr>arg_title := Some ''Cache'', arg_description := Some ''Cache the context'',
     arg_category := Some ''performance''\<rparr>"

definition long_lesson_args :: args where
  "long_lesson_args = no_args\<lparr>arg_title := Some ''Long'',
     arg_description := Some (replicate 120 (CHR ''z'')), arg_category := Some ''process''\<rparr>"

definition focus_args :: "string \<Rightarrow> args" where
  "focus_args f = no_args\<lparr>arg_focus := Some f\<rparr>"

definition query_args :: "string \<Rightarrow> args" where
  "query_args q = no_args\<lparr>arg_query := Some q\<rparr>"

definition at_ms :: "nat \<Rightarrow> date_reads" where
  \<comment> \<open>the three clock reads of one call falling into the same millisecond\<close>
  "at_ms t = \<lparr>date_now = t, date_created = t, date_updated = t\<rparr>"

definition two_settings :: db where
  "two_settings = run [(''ccmem_learn_setting'', start_cmd ''npm start'', 10),
                       (''ccmem_learn_setting'', test_cmd ''npm run test'', 20),
                       (''ccmem_create_story'', story_args, 30)] empty_db"

definition two_settings_data :: json_data where
  "two_settings_data = node_run [(''ccmem_learn_setting'', start_cmd ''npm start'', at_ms 10),
                       (''ccmem_learn_setting'', test_cmd ''npm run test'', at_ms 20)] empty_data"

definition three_calls :: "call list" where
  "three_calls = [(''ccmem_learn_setting'', test_cmd ''npm run test:ci'', 40),
                  (''ccmem_create_story'', story_args, 50),
                  (''ccmem_learn_setting'', start_cmd ''npm run dev'', 60)]"

definition two_writes :: "setting_write list" where
  "two_writes = [(test_cmd ''npm run test:ci'', 40, at_ms 41),
                 (start_cmd ''npm run dev'', 50, at_ms 52)]"

definition busy_db :: db where
  "busy_db = run [(''ccmem_learn_setting'', start_cmd ''npm start'', 10),
                  (''ccmem_create_story'', story_args, 20),
                  (''ccmem_create_task'', task_args 1, 30),
                  (''ccmem_record_lesson'', lesson_args, 40)] empty_db"

definition long_db :: db where
  "long_db = run [(''ccmem_record_lesson'', long_lesson_args, 10)] empty_db"



section \<open>Properties\<close>

subsection \<open>Rowids\<close>

lemma fold_max_ge_init: "a \<le> fold max xs (a::nat)"
  by (induction xs arbitrary: a) (auto intro: order_trans [OF max.cobounded2])

lemma fold_max_ge_elem: "x \<in> set xs \<Longrightarrow> x \<le> fold max xs (a::nat)"
  by (induction xs arbitrary: a) (auto intro: order_trans [OF max.cobounded1 fold_max_ge_init])

lemma new_rowid_gt_seq: "tbl_seq t < new_rowid t"
  by (simp add: new_rowid_def fold_max_ge_init less_Suc_eq_le)

lemma new_rowid_gt_ids: "i \<in> set (ids t) \<Longrightarrow> i < new_rowid t"
  by (simp add: new_rowid_def fold_max_ge_elem less_Suc_eq_le)

lemma new_rowid_not_in_rows: "(new_rowid t, r) \<notin> set (tbl_rows t)"
proof
  assume "(new_rowid t, r) \<in> set (tbl_rows t)"
  then have "new_rowid t \<in> set (ids t)"
    by (force simp: ids_def)
  then show False
    using new_rowid_gt_ids by blast
qed

subsection \<open>Writing a Setting\<close>

lemma learnSetting_Inr:
  assumes "arg_category a = Some c" "arg_key a = Some k" "arg_value a = Some v"
  shows "learnSetting a now s =
     Inr (''Learned setting: '' @ c @ ''.'' @ k @ '' = '' @ dquote @ v @ dquote @ nl @ nl
            @ ''I'' @ apostrophe
            @ ''ll remember this project configuration for future development assistance.'',
          s\<lparr>settings := \<lparr>tbl_rows = filter (\<lambda>p. \<not> same_key c k p) (tbl_rows (settings s))
                @ [(new_rowid (settings s), \<lparr>s_category = c, s_key_name = k, s_value = v,
                     s_description = or_null (arg_description a), s_created_at = now,
                     s_updated_at = now\<rparr>)],
              tbl_seq = new_rowid (settings s)\<rparr>\<rparr>)"
  using assms
  by (simp add: learnSetting_def run_insert_settings_def bind_not_null_def settings_replace_def
      Let_def js_str_def)

lemma learnSetting_Inl:
  "arg_category a = None \<Longrightarrow> learnSetting a now s = Inl (NotNull ''settings'' ''category'')"
  "arg_category a = Some c \<Longrightarrow> arg_key a = None
     \<Longrightarrow> learnSetting a now s = Inl (NotNull ''settings'' ''key_name'')"
  "arg_category a = Some c \<Longrightarrow> arg_key a = Some k \<Longrightarrow> arg_value a = None
     \<Longrightarrow> learnSetting a now s = Inl (NotNull ''settings'' ''value'')"
  by (simp_all add: learnSetting_def run_insert_settings_def bind_not_null_def)

lemma filter_same_key_kept: "filter (same_key c k) (filter (\<lambda>p. \<not> same_key c k p) xs) = []"
  by (induction xs) auto

lemma node_filter_same_key_kept:
  "filter (node_same_key c k) (filter (\<lambda>r. \<not> node_same_key c k r) xs) = []"
  by (induction xs) auto

lemma sql_setting_twice:
  assumes "arg_category a1 = Some c" "arg_key a1 = Some k" "arg_value a1 = Some v1"
      and "arg_category a2 = Some c" "arg_key a2 = Some k" "arg_value a2 = Some v2"
  shows "\<exists>t1 s1 t2 s2.
           learnSetting a1 now1 s = Inr (t1, s1) \<and> learnSetting a2 now2 s1 = Inr (t2, s2)
         \<and> map s_updated_at (setting_rows c k s1) = [now1]
         \<and> setting_rows c k s2 =
             [\<lparr>s_category = c, s_key_name = k, s_value = v2,
               s_description = or_null (arg_description a2), s_created_at = now2,
               s_updated_at = now2\<rparr>]"
  by (simp add: learnSetting_Inr [OF assms(1-3)] learnSetting_Inr [OF assms(4-6)]
      setting_rows_def filter_same_key_kept same_key_def)

lemma node_setting_twice:
  assumes "arg_category a1 = Some c" "arg_key a1 = Some k"
      and "arg_category a2 = Some c" "arg_key a2 = Some k" "arg_value a2 = Some v2"
  shows "map j_updated_at (node_setting_rows (Some c) (Some k) (snd (node_learnSetting a1 clk1 d)))
           = [date_updated clk1]
         \<and> node_setting_rows (Some c) (Some k)
             (snd (node_learnSetting a2 clk2 (snd (node_learnSetting a1 clk1 d)))) =
             [\<lparr>j_id = date_now clk2, j_category = Some c, j_key_name = Some k, j_value = Some v2,
               j_description = or_null (arg_description a2), j_created_at = date_created clk2,
               j_updated_at = date_updated clk2\<rparr>]"
  using assms
  by (simp add: node_learnSetting_def node_setting_rows_def node_filter_same_key_kept
      node_same_key_def Let_def)

text \<open>
  Claim C1, as the code has it. Two Setting writes with the same (category, key), one after
  the other, on either server: both are accepted, and afterwards exactly one row exists
  for that key. It holds the value of the second write, and its \<open>updated_at\<close> is the
  clock reading of the second write, as the row's \<open>updated_at\<close> after the first write was
  the reading of the first; so it is strictly greater exactly when the clock reading has
  advanced between the two writes.
\<close>

theorem setting_rewrite_one_row:
  assumes "arg_category a1 = Some c" "arg_key a1 = Some k" "arg_value a1 = Some v1"
      and "arg_category a2 = Some c" "arg_key a2 = Some k" "arg_value a2 = Some v2"
  shows "(\<exists>t1 s1 t2 s2.
           learnSetting a1 now1 s = Inr (t1, s1) \<and> learnSetting a2 now2 s1 = Inr (t2, s2)
         \<and> map s_updated_at (setting_rows c k s1) = [now1]
         \<and> setting_rows c k s2 =
             [\<lparr>s_category = c, s_key_name = k, s_value = v2,
               s_description = or_null (arg_description a2), s_created_at = now2,
               s_updated_at = now2\<rparr>])
     \<and> map j_updated_at (node_setting_rows (Some c) (Some k) (snd (node_learnSetting a1 clk1 d)))
           = [date_updated clk1]
     \<and> node_setting_rows (Some c) (Some k)
             (snd (node_learnSetting a2 clk2 (snd (node_learnSetting a1 clk1 d)))) =
             [\<lparr>j_id = date_now clk2, j_category = Some c, j_key_name = Some k, j_value = Some v2,
               j_description = or_null (arg_description a2), j_created_at = date_created clk2,
               j_updated_at = date_updated clk2\<rparr>]"
  using sql_setting_twice [OF assms] node_setting_twice [OF assms(1,2,4,5,6)] by blast

theorem setting_rewrite_one_row_witness:
  "arg_category (test_cmd ''npm run test'') = Some ''test''
   \<and> arg_key (test_cmd ''npm run test'') = Some ''command''
   \<and> arg_value (test_cmd ''npm run test'') = Some ''npm run test''
   \<and> arg_category (test_cmd ''npm run test:ci'') = Some ''test''
   \<and> arg_key (test_cmd ''npm run test:ci'') = Some ''command''
   \<and> arg_value (test_cmd ''npm run test:ci'') = Some ''npm run test:ci''
   \<and> (\<exists>t1 s1 t2 s2.
         learnSetting (test_cmd ''npm run test'') 100 empty_db = Inr (t1, s1)
       \<and> learnSetting (test_cmd ''npm run test:ci'') 160 s1 = Inr (t2, s2)
       \<and> map s_updated_at (setting_rows ''test'' ''command'' s1) = [100]
       \<and> setting_rows ''test'' ''command'' s2 =
           [\<lparr>s_category = ''test'', s_key_name = ''command'', s_value = ''npm run test:ci'',
             s_description = None, s_created_at = 160, s_updated_at = 160\<rparr>])
   \<and> map j_updated_at (node_setting_rows (Some ''test'') (Some ''command'')
         (snd (node_learnSetting (test_cmd ''npm run test'') (at_ms 100000) empty_data)))
       = [100000]
   \<and> node_setting_rows (Some ''test'') (Some ''command'')
         (snd (node_learnSetting (test_cmd ''npm run test:ci'') (at_ms 160000)
            (snd (node_learnSetting (test_cmd ''npm run test'') (at_ms 100000) empty_data)))) =
         [\<lparr>j_id = 160000, j_category = Some ''test'', j_key_name = Some ''command'',
           j_value = Some ''npm run test:ci'', j_description = None, j_created_at = 160000,
           j_updated_at = 160000\<rparr>]"
proof -
  have h: "arg_category (test_cmd ''npm run test'') = Some ''test''"
    "arg_key (test_cmd ''npm run test'') = Some ''command''"
    "arg_value (test_cmd ''npm run test'') = Some ''npm run test''"
    "arg_category (test_cmd ''npm run test:ci'') = Some ''test''"
    "arg_key (test_cmd ''npm run test:ci'') = Some ''command''"
    "arg_value (test_cmd ''npm run test:ci'') = Some ''npm run test:ci''"
    by (simp_all add: test_cmd_def no_args_def)
  have d: "or_null (arg_description (test_cmd ''npm run test:ci'')) = None"
    by (simp add: test_cmd_def no_args_def or_null_def)
  show ?thesis
    using h setting_rewrite_one_row [OF h, of 100 empty_db 160 "at_ms 100000" empty_data "at_ms 160000"]
    by (simp add: d at_ms_def)
qed

text \<open>
  Two writes of \<open>test.command\<close> within the same second: the row left by the second write
  has the \<open>updated_at\<close> that the first write produced, not a greater one.
\<close>

theorem same_second_rewrite_counterexample:
  "map s_updated_at (setting_rows ''test'' ''command''
      (run [(''ccmem_learn_setting'', test_cmd ''npm run test'', 100)] empty_db)) = [100]
   \<and> map s_updated_at (setting_rows ''test'' ''command''
      (run [(''ccmem_learn_setting'', test_cmd ''npm run test'', 100),
            (''ccmem_learn_setting'', test_cmd ''npm run test:ci'', 100)] empty_db)) = [100]
   \<and> map s_value (setting_rows ''test'' ''command''
      (run [(''ccmem_learn_setting'', test_cmd ''npm run test'', 100),
            (''ccmem_learn_setting'', test_cmd ''npm run test:ci'', 100)] empty_db))
       = [''npm run test:ci'']"
  by code_simp

subsection \<open>Recording an architecture note\<close>

text \<open>
  Claim C2 at a concrete input: recording the component \<open>API\<close> twice on the empty store
  leaves two ArchitectureNote rows with that component. The table \<open>architecture\<close> has no
  UNIQUE constraint on \<open>component\<close> (as \<open>settings\<close> has on its key), so the \<open>OR REPLACE\<close> of
  \<open>learnArchitecture\<close> never finds a row to replace.
\<close>

theorem learnArchitecture_twice_two_rows:
  "components (run [(''ccmem_learn_architecture'', api_args, 1),
                    (''ccmem_learn_architecture'', api_args, 2)] empty_db) = [''API'', ''API'']"
  by code_simp

subsection \<open>Missing required fields\<close>

text \<open>
  On the relational server the \<open>NOT NULL\<close> columns of the schema refuse every write with a
  required property missing, with an error that names table and column.
\<close>

lemma relational_rejects_missing:
  "arg_category a = None \<or> arg_key a = None \<or> arg_value a = None
     \<Longrightarrow> \<exists>col. learnSetting a now s = Inl (NotNull ''settings'' col)"
  "arg_component a = None \<or> arg_description a = None \<or> arg_tech_stack a = None
     \<Longrightarrow> \<exists>col. learnArchitecture a now s = Inl (NotNull ''architecture'' col)"
  "arg_environment a = None \<or> arg_deployment_steps a = None
     \<Longrightarrow> \<exists>col. learnDeployment a now s = Inl (NotNull ''deployment'' col)"
  "arg_title a = None \<or> arg_description a = None
     \<Longrightarrow> \<exists>col. createStory a now s = Inl (NotNull ''story'' col)"
  "arg_title a = None \<or> arg_description a = None
     \<Longrightarrow> \<exists>col. createTask a now s = Inl (NotNull ''task'' col)"
  "arg_title a = None \<or> arg_description a = None
     \<Longrightarrow> \<exists>col. logDefect a now s = Inl (NotNull ''defect'' col)"
  "arg_title a = None \<or> arg_description a = None \<or> arg_category a = None
     \<Longrightarrow> \<exists>col. recordLesson a now s = Inl (NotNull ''lessons'' col)"
  "arg_title a = None \<or> arg_content a = None
     \<Longrightarrow> \<exists>col. addKnowledge a now s = Inl (NotNull ''knowledge'' col)"
  by (auto simp: learnSetting_def run_insert_settings_def learnArchitecture_def
      run_insert_architecture_def learnDeployment_def run_insert_deployment_def createStory_def
      run_insert_story_def createTask_def run_insert_task_def logDefect_def run_insert_defect_def
      recordLesson_def run_insert_lessons_def addKnowledge_def run_insert_knowledge_def
      bind_not_null_def split: option.splits)

lemma relational_missing_category:
  "handleCallTool ''ccmem_learn_setting'' no_category 7 empty_db
     = Inl (NotNull ''settings'' ''category'')"
  "error_message (NotNull ''settings'' ''category'') = ''NOT NULL constraint failed: settings.category''"
  by code_simp+

text \<open>
  Claim C5 at a concrete input: on the fallback server, a Setting write without the
  required \<open>category\<close> is accepted; it answers with the confirmation and appends a row
  whose category is absent.
\<close>

theorem node_learnSetting_missing_category:
  "node_handleCallTool ''ccmem_learn_setting'' no_category (at_ms 7) empty_data =
     Inr (''Learned setting: undefined.command = '' @ dquote @ ''npm test'' @ dquote @ nl @ nl
            @ ''I'' @ apostrophe
            @ ''ll remember this project configuration for future development assistance.'',
          empty_data\<lparr>d_settings :=
            [\<lparr>j_id = 7, j_category = None, j_key_name = Some ''command'',
              j_value = Some ''npm test'', j_description = None, j_created_at = 7,
              j_updated_at = 7\<rparr>]\<rparr>)"
  by (simp add: node_handleCallTool_def node_learnSetting_def no_category_def no_args_def
      at_ms_def empty_data_def js_str_def or_null_def)

subsection \<open>The frame of a Setting write\<close>

lemma filter_other_key:
  assumes "arg_category a = Some c" "arg_key a = Some k"
  shows "filter (other_key a) (filter (\<lambda>p. \<not> same_key c k p) xs @ [(i, r\<lparr>s_category := c, s_key_name := k\<rparr>)])
           = filter (other_key a) xs"
  using assms by (induction xs) (auto simp: other_key_def same_key_def)

lemma step_learnSetting_frame:
  "architecture (step (''ccmem_learn_setting'', a, now) s) = architecture s
   \<and> deployment (step (''ccmem_learn_setting'', a, now) s) = deployment s
   \<and> story (step (''ccmem_learn_setting'', a, now) s) = story s
   \<and> task (step (''ccmem_learn_setting'', a, now) s) = task s
   \<and> defect (step (''ccmem_learn_setting'', a, now) s) = defect s
   \<and> lessons (step (''ccmem_learn_setting'', a, now) s) = lessons s
   \<and> knowledge (step (''ccmem_learn_setting'', a, now) s) = knowledge s
   \<and> filter (other_key a) (tbl_rows (settings (step (''ccmem_learn_setting'', a, now) s)))
       = filter (other_key a) (tbl_rows (settings s))"
proof (cases "\<exists>c k v. arg_category a = Some c \<and> arg_key a = Some k \<and> arg_value a = Some v")
  case True
  then obtain c k v where h: "arg_category a = Some c" "arg_key a = Some k" "arg_value a = Some v"
    by blast
  show ?thesis
    using filter_other_key [OF h(1,2), of "tbl_rows (settings s)" "new_rowid (settings s)"
        "\<lparr>s_category = c, s_key_name = k, s_value = v,
          s_description = or_null (arg_description a), s_created_at = now, s_updated_at = now\<rparr>"]
    by (simp add: step_def handleCallTool_def learnSetting_Inr [OF h])
next
  case False
  then have "\<exists>e. learnSetting a now s = Inl e"
    by (cases "arg_category a"; cases "arg_key a"; cases "arg_value a")
       (auto simp: learnSetting_Inl)
  then show ?thesis
    by (auto simp: step_def handleCallTool_def)
qed

lemma node_filter_other_key:
  "filter (\<lambda>r. \<not> node_same_key c k r)
     (filter (\<lambda>r. \<not> node_same_key c k r) xs @ [r\<lparr>j_category := c, j_key_name := k\<rparr>])
   = filter (\<lambda>r. \<not> node_same_key c k r) xs"
  by (induction xs) (auto simp: node_same_key_def)

lemma node_learnSetting_frame:
  "d_architecture (snd (node_learnSetting a clk d)) = d_architecture d
   \<and> d_deployment (snd (node_learnSetting a clk d)) = d_deployment d
   \<and> d_story (snd (node_learnSetting a clk d)) = d_story d
   \<and> d_task (snd (node_learnSetting a clk d)) = d_task d
   \<and> d_defect (snd (node_learnSetting a clk d)) = d_defect d
   \<and> d_lessons (snd (node_learnSetting a clk d)) = d_lessons d
   \<and> d_knowledge (snd (node_learnSetting a clk d)) = d_knowledge d
   \<and> filter (\<lambda>r. \<not> node_same_key (arg_category a) (arg_key a) r)
         (d_settings (snd (node_learnSetting a clk d)))
       = filter (\<lambda>r. \<not> node_same_key (arg_category a) (arg_key a) r) (d_settings d)"
  using node_filter_other_key [of "arg_category a" "arg_key a" "d_settings d"
      "\<lparr>j_id = date_now clk, j_category = arg_category a, j_key_name = arg_key a,
        j_value = arg_value a, j_description = or_null (arg_description a),
        j_created_at = date_created clk, j_updated_at = date_updated clk\<rparr>"]
  by (simp add: node_learnSetting_def Let_def)

text \<open>
  Claim C10. A Setting write, on either server, leaves the seven other collections as they
  were, and leaves every Setting row of another (category, key) as it was, in the same
  order. (The store after a request that fails is the store before it.)
\<close>

theorem learnSetting_frame:
  "architecture (step (''ccmem_learn_setting'', a, now) s) = architecture s
   \<and> deployment (step (''ccmem_learn_setting'', a, now) s) = deployment s
   \<and> story (step (''ccmem_learn_setting'', a, now) s) = story s
   \<and> task (step (''ccmem_learn_setting'', a, now) s) = task s
   \<and> defect (step (''ccmem_learn_setting'', a, now) s) = defect s
   \<and> lessons (step (''ccmem_learn_setting'', a, now) s) = lessons s
   \<and> knowledge (step (''ccmem_learn_setting'', a, now) s) = knowledge s
   \<and> filter (other_key a) (tbl_rows (settings (step (''ccmem_learn_setting'', a, now) s)))
       = filter (other_key a) (tbl_rows (settings s))
   \<and> d_architecture (snd (node_learnSetting a clk d)) = d_architecture d
   \<and> d_deployment (snd (node_learnSetting a clk d)) = d_deployment d
   \<and> d_story (snd (node_learnSetting a clk d)) = d_story d
   \<and> d_task (snd (node_learnSetting a clk d)) = d_task d
   \<and> d_defect (snd (node_learnSetting a clk d)) = d_defect d
   \<and> d_lessons (snd (node_learnSetting a clk d)) = d_lessons d
   \<and> d_knowledge (snd (node_learnSetting a clk d)) = d_knowledge d
   \<and> filter (\<lambda>r. \<not> node_same_key (arg_category a) (arg_key a) r)
         (d_settings (snd (node_learnSetting a clk d)))
       = filter (\<lambda>r. \<not> node_same_key (arg_category a) (arg_key a) r) (d_settings d)"
  using step_learnSetting_frame [of a now s] node_learnSetting_frame [of a clk d] by blast

theorem learnSetting_frame_witness:
  "story (step (''ccmem_learn_setting'', test_cmd ''npm run test:ci'', 40) two_settings) =
     \<lparr>tbl_rows = [(1, \<lparr>st_title = ''Add login'', st_description = ''Implement OAuth login flow'',
                       st_status = ''active'', st_priority = 3, st_files_affected = None,
                       st_created_at = 30, st_updated_at = 30, st_completed_at = None\<rparr>)],
      tbl_seq = 1\<rparr>
   \<and> filter (other_key (test_cmd ''npm run test:ci''))
        (tbl_rows (settings (step (''ccmem_learn_setting'', test_cmd ''npm run test:ci'', 40)
           two_settings)))
       = [(1, \<lparr>s_category = ''start'', s_key_name = ''command'', s_value = ''npm start'',
                s_description = None, s_created_at = 10, s_updated_at = 10\<rparr>)]
   \<and> filter (\<lambda>r. \<not> node_same_key (Some ''test'') (Some ''command'') r)
         (d_settings (snd (node_learnSetting (test_cmd ''npm run test:ci'') (at_ms 40)
            two_settings_data)))
       = [\<lparr>j_id = 10, j_category = Some ''start'', j_key_name = Some ''command'',
           j_value = Some ''npm start'', j_description = None, j_created_at = 10,
           j_updated_at = 10\<rparr>]"
proof -
  have a: "story two_settings =
     \<lparr>tbl_rows = [(1, \<lparr>st_title = ''Add login'', st_description = ''Implement OAuth login flow'',
                       st_status = ''active'', st_priority = 3, st_files_affected = None,
                       st_created_at = 30, st_updated_at = 30, st_completed_at = None\<rparr>)],
      tbl_seq = 1\<rparr>"
    by code_simp
  have b: "filter (other_key (test_cmd ''npm run test:ci'')) (tbl_rows (settings two_settings))
       = [(1, \<lparr>s_category = ''start'', s_key_name = ''command'', s_value = ''npm start'',
                s_description = None, s_created_at = 10, s_updated_at = 10\<rparr>)]"
    by code_simp
  have c: "filter (\<lambda>r. \<not> node_same_key (Some ''test'') (Some ''command'') r)
         (d_settings two_settings_data)
       = [\<lparr>j_id = 10, j_category = Some ''start'', j_key_name = Some ''command'',
           j_value = Some ''npm start'', j_description = None, j_created_at = 10,
           j_updated_at = 10\<rparr>]"
    by code_simp
  have k: "arg_category (test_cmd ''npm run test:ci'') = Some ''test''"
    "arg_key (test_cmd ''npm run test:ci'') = Some ''command''"
    by (simp_all add: test_cmd_def no_args_def)
  show ?thesis
    using learnSetting_frame [of "test_cmd ''npm run test:ci''" 40 two_settings "at_ms 40"
        two_settings_data]
    by (simp add: a b c k)
qed

subsection \<open>Creating a task\<close>







subsection \<open>Identifiers of rows\<close>

lemma ids_tbl_insert: "ids (snd (tbl_insert r t)) = ids t @ [new_rowid t]"
  by (simp add: tbl_insert_def ids_def Let_def)

lemma seq_tbl_insert: "tbl_seq (snd (tbl_insert r t)) = new_rowid t"
  by (simp add: tbl_insert_def Let_def)

lemma rows_tbl_insert: "tbl_rows (snd (tbl_insert r t)) = tbl_rows t @ [(new_rowid t, r)]"
  by (simp add: tbl_insert_def Let_def)

lemma ids_settings_replace:
  "ids (snd (settings_replace r t))
     = map fst (filter (\<lambda>p. \<not> same_key (s_category r) (s_key_name r) p) (tbl_rows t))
       @ [new_rowid t]"
  by (simp add: settings_replace_def ids_def Let_def)

lemma seq_settings_replace: "tbl_seq (snd (settings_replace r t)) = new_rowid t"
  by (simp add: settings_replace_def Let_def)

lemma rows_settings_replace:
  "tbl_rows (snd (settings_replace r t))
     = filter (\<lambda>p. \<not> same_key (s_category r) (s_key_name r) p) (tbl_rows t) @ [(new_rowid t, r)]"
  by (simp add: settings_replace_def Let_def)

lemma wf_tbl_insert: "wf_table t \<Longrightarrow> wf_table (snd (tbl_insert r t))"
  by (auto simp: wf_table_def ids_tbl_insert seq_tbl_insert sorted_wrt_append list_all_iff
      dest: new_rowid_gt_ids less_imp_le)

lemma sorted_ids_filter:
  "sorted_wrt (<) (map fst xs) \<Longrightarrow> sorted_wrt (<) (map fst (filter P xs))"
  by (simp add: sorted_wrt_map sorted_wrt_filter)

lemma wf_settings_replace: "wf_table t \<Longrightarrow> wf_table (snd (settings_replace r t))"
proof -
  assume w: "wf_table t"
  let ?kept = "filter (\<lambda>p. \<not> same_key (s_category r) (s_key_name r) p) (tbl_rows t)"
  have s: "sorted_wrt (<) (map fst ?kept)"
    using w by (simp add: wf_table_def ids_def sorted_ids_filter)
  have b: "\<forall>i\<in>set (map fst ?kept). i < new_rowid t"
    using new_rowid_gt_ids [of _ t] by (auto simp: ids_def)
  show ?thesis
    using s b
    by (auto simp: wf_table_def ids_settings_replace seq_settings_replace sorted_wrt_append
        list_all_iff dest: less_imp_le)
qed

lemma fresh_tbl_insert:
  "filter (\<lambda>i. i \<notin> set (ids t)) (ids (snd (tbl_insert r t))) = [new_rowid t]"
  using new_rowid_gt_ids [of "new_rowid t" t]
  by (auto simp: ids_tbl_insert filter_empty_conv)

lemma fresh_settings_replace:
  "filter (\<lambda>i. i \<notin> set (ids t)) (ids (snd (settings_replace r t))) = [new_rowid t]"
proof -
  have "new_rowid t \<notin> set (ids t)"
    using new_rowid_gt_ids [of "new_rowid t" t] by auto
  moreover have "\<forall>i\<in>set (map fst (filter P (tbl_rows t))). i \<in> set (ids t)" for P
    by (auto simp: ids_def)
  ultimately show ?thesis
    unfolding ids_settings_replace by (simp add: filter_empty_conv)
qed

lemma fresh_same: "filter (\<lambda>i. i \<notin> set xs) xs = []"
  by (simp add: filter_empty_conv)

lemma rows_stable_refl: "rows_stable t t"
  by (simp add: rows_stable_def list_all_iff)

lemma keeps_refl: "keeps t t"
  by (simp add: keeps_def)

lemma rows_stable_settings_replace: "rows_stable t (snd (settings_replace r t))"
  by (auto simp: rows_stable_def list_all_iff rows_settings_replace new_rowid_gt_seq)

lemma keeps_tbl_insert: "keeps t (snd (tbl_insert r t))"
  by (simp add: keeps_def rows_tbl_insert)

lemma rows_stable_trans:
  "rows_stable t t1 \<Longrightarrow> rows_stable t1 t2 \<Longrightarrow> tbl_seq t \<le> tbl_seq t1 \<Longrightarrow> rows_stable t t2"
  by (fastforce simp: rows_stable_def list_all_iff)

lemma keeps_trans: "keeps t t1 \<Longrightarrow> keeps t1 t2 \<Longrightarrow> keeps t t2"
  unfolding keeps_def by (rule prefix_order.trans)

subsection \<open>The effect of one request\<close>

lemma run_insert_settings_effect:
  "run_insert_settings x1 x2 x3 x4 now s = Inr (i, s')
     \<Longrightarrow> \<exists>r. s' = s\<lparr>settings := snd (settings_replace r (settings s))\<rparr>"
  by (auto simp: run_insert_settings_def bind_not_null_def split: option.splits prod.splits)
     (metis snd_conv)

lemma learnSetting_effect:
  "learnSetting a now s = Inr (t, s')
     \<Longrightarrow> \<exists>r. s' = s\<lparr>settings := snd (settings_replace r (settings s))\<rparr>"
  by (auto simp: learnSetting_def split: sum.splits dest: run_insert_settings_effect)

lemma run_insert_architecture_effect:
  "run_insert_architecture x1 x2 x3 x4 x5 now s = Inr (i, s')
     \<Longrightarrow> \<exists>r. s' = s\<lparr>architecture := snd (tbl_insert r (architecture s))\<rparr>"
  by (auto simp: run_insert_architecture_def bind_not_null_def split: option.splits prod.splits)
     (metis snd_conv)

lemma learnArchitecture_effect:
  "learnArchitecture a now s = Inr (t, s')
     \<Longrightarrow> \<exists>r. s' = s\<lparr>architecture := snd (tbl_insert r (architecture s))\<rparr>"
  by (auto simp: learnArchitecture_def split: sum.splits dest: run_insert_architecture_effect)

lemma run_insert_deployment_effect:
  "run_insert_deployment x1 x2 x3 x4 x5 now s = Inr (i, s')
     \<Longrightarrow> \<exists>r. s' = s\<lparr>deployment := snd (tbl_insert r (deployment s))\<rparr>"
  by (auto simp: run_insert_deployment_def bind_not_null_def split: option.splits prod.splits)
     (metis snd_conv)

lemma learnDeployment_effect:
  "learnDeployment a now s = Inr (t, s')
     \<Longrightarrow> \<exists>r. s' = s\<lparr>deployment := snd (tbl_insert r (deployment s))\<rparr>"
  by (auto simp: learnDeployment_def split: sum.splits dest: run_insert_deployment_effect)

lemma run_insert_story_effect:
  "run_insert_story x1 x2 x3 x4 now s = Inr (i, s')
     \<Longrightarrow> \<exists>r. s' = s\<lparr>story := snd (tbl_insert r (story s))\<rparr>"
  by (auto simp: run_insert_story_def bind_not_null_def split: option.splits prod.splits)
     (metis snd_conv)

lemma createStory_effect:
  "createStory a now s = Inr (t, s')
     \<Longrightarrow> \<exists>r. s' = s\<lparr>story := snd (tbl_insert r (story s))\<rparr>"
  by (auto simp: createStory_def split: sum.splits dest: run_insert_story_effect)

lemma run_insert_task_effect:
  "run_insert_task x1 x2 x3 x4 x5 now s = Inr (i, s')
     \<Longrightarrow> \<exists>r. s' = s\<lparr>task := snd (tbl_insert r (task s))\<rparr>"
  by (auto simp: run_insert_task_def bind_not_null_def split: option.splits prod.splits)
     (metis snd_conv)

lemma createTask_effect:
  "createTask a now s = Inr (t, s')
     \<Longrightarrow> \<exists>r. s' = s\<lparr>task := snd (tbl_insert r (task s))\<rparr>"
  by (auto simp: createTask_def split: sum.splits dest: run_insert_task_effect)

lemma run_insert_defect_effect:
  "run_insert_defect x1 x2 x3 x4 x5 x6 now s = Inr (i, s')
     \<Longrightarrow> \<exists>r. s' = s\<lparr>defect := snd (tbl_insert r (defect s))\<rparr>"
  by (auto simp: run_insert_defect_def bind_not_null_def split: option.splits prod.splits)
     (metis snd_conv)

lemma logDefect_effect:
  "logDefect a now s = Inr (t, s')
     \<Longrightarrow> \<exists>r. s' = s\<lparr>defect := snd (tbl_insert r (defect s))\<rparr>"
  by (auto simp: logDefect_def split: sum.splits dest: run_insert_defect_effect)

lemma run_insert_lessons_effect:
  "run_insert_lessons x1 x2 x3 x4 x5 x6 now s = Inr (i, s')
     \<Longrightarrow> \<exists>r. s' = s\<lparr>lessons := snd (tbl_insert r (lessons s))\<rparr>"
  by (auto simp: run_insert_lessons_def bind_not_null_def split: option.splits prod.splits)
     (metis snd_conv)

lemma recordLesson_effect:
  "recordLesson a now s = Inr (t, s')
     \<Longrightarrow> \<exists>r. s' = s\<lparr>lessons := snd (tbl_insert r (lessons s))\<rparr>"
  by (auto simp: recordLesson_def split: sum.splits dest: run_insert_lessons_effect)

lemma run_insert_knowledge_effect:
  "run_insert_knowledge x1 x2 x3 x4 now s = Inr (i, s')
     \<Longrightarrow> \<exists>r. s' = s\<lparr>knowledge := snd (tbl_insert r (knowledge s))\<rparr>"
  by (auto simp: run_insert_knowledge_def bind_not_null_def split: option.splits prod.splits)
     (metis snd_conv)

lemma addKnowledge_effect:
  "addKnowledge a now s = Inr (t, s')
     \<Longrightarrow> \<exists>r. s' = s\<lparr>knowledge := snd (tbl_insert r (knowledge s))\<rparr>"
  by (auto simp: addKnowledge_def split: sum.splits dest: run_insert_knowledge_effect)

lemma step_effect:
  "step c s = s
   \<or> (\<exists>r. step c s = s\<lparr>settings := snd (settings_replace r (settings s))\<rparr>)
   \<or> (\<exists>r. step c s = s\<lparr>architecture := snd (tbl_insert r (architecture s))\<rparr>)
   \<or> (\<exists>r. step c s = s\<lparr>deployment := snd (tbl_insert r (deployment s))\<rparr>)
   \<or> (\<exists>r. step c s = s\<lparr>story := snd (tbl_insert r (story s))\<rparr>)
   \<or> (\<exists>r. step c s = s\<lparr>task := snd (tbl_insert r (task s))\<rparr>)
   \<or> (\<exists>r. step c s = s\<lparr>defect := snd (tbl_insert r (defect s))\<rparr>)
   \<or> (\<exists>r. step c s = s\<lparr>lessons := snd (tbl_insert r (lessons s))\<rparr>)
   \<or> (\<exists>r. step c s = s\<lparr>knowledge := snd (tbl_insert r (knowledge s))\<rparr>)"
proof -
  obtain name a now where c: "c = (name, a, now)"
    by (cases c)
  show ?thesis
  proof (cases "handleCallTool name a now s")
    case (Inl e)
    then show ?thesis by (simp add: step_def c)
  next
    case (Inr p)
    obtain t s' where p: "p = (t, s')" by (cases p)
    have s: "step c s = s'"
      by (simp add: step_def c Inr p)
    from Inr p have "handleCallTool name a now s = Inr (t, s')"
      by simp
    then consider "learnSetting a now s = Inr (t, s')" | "learnArchitecture a now s = Inr (t, s')"
      | "learnDeployment a now s = Inr (t, s')" | "createStory a now s = Inr (t, s')"
      | "createTask a now s = Inr (t, s')" | "logDefect a now s = Inr (t, s')"
      | "recordLesson a now s = Inr (t, s')" | "addKnowledge a now s = Inr (t, s')"
      | "s' = s"
      unfolding handleCallTool_def by (auto split: if_splits sum.splits)
    then show ?thesis
    proof cases
      case 1 then show ?thesis using learnSetting_effect s by blast
    next
      case 2 then show ?thesis using learnArchitecture_effect s by blast
    next
      case 3 then show ?thesis using learnDeployment_effect s by blast
    next
      case 4 then show ?thesis using createStory_effect s by blast
    next
      case 5 then show ?thesis using createTask_effect s by blast
    next
      case 6 then show ?thesis using logDefect_effect s by blast
    next
      case 7 then show ?thesis using recordLesson_effect s by blast
    next
      case 8 then show ?thesis using addKnowledge_effect s by blast
    next
      case 9 then show ?thesis using s by simp
    qed
  qed
qed


lemma ids_of_update:
  "ids_of e (s\<lparr>settings := t1\<rparr>) = (if e = Setting then ids t1 else ids_of e s)"
  "ids_of e (s\<lparr>architecture := t2\<rparr>) = (if e = ArchitectureNote then ids t2 else ids_of e s)"
  "ids_of e (s\<lparr>deployment := t3\<rparr>) = (if e = DeploymentProcedure then ids t3 else ids_of e s)"
  "ids_of e (s\<lparr>story := t4\<rparr>) = (if e = Story then ids t4 else ids_of e s)"
  "ids_of e (s\<lparr>task := t5\<rparr>) = (if e = Task then ids t5 else ids_of e s)"
  "ids_of e (s\<lparr>defect := t6\<rparr>) = (if e = Defect then ids t6 else ids_of e s)"
  "ids_of e (s\<lparr>lessons := t7\<rparr>) = (if e = Lesson then ids t7 else ids_of e s)"
  "ids_of e (s\<lparr>knowledge := t8\<rparr>) = (if e = KnowledgeNote then ids t8 else ids_of e s)"
  by (cases e; simp)+

lemma seq_of_update:
  "seq_of e (s\<lparr>settings := t1\<rparr>) = (if e = Setting then tbl_seq t1 else seq_of e s)"
  "seq_of e (s\<lparr>architecture := t2\<rparr>) = (if e = ArchitectureNote then tbl_seq t2 else seq_of e s)"
  "seq_of e (s\<lparr>deployment := t3\<rparr>) = (if e = DeploymentProcedure then tbl_seq t3 else seq_of e s)"
  "seq_of e (s\<lparr>story := t4\<rparr>) = (if e = Story then tbl_seq t4 else seq_of e s)"
  "seq_of e (s\<lparr>task := t5\<rparr>) = (if e = Task then tbl_seq t5 else seq_of e s)"
  "seq_of e (s\<lparr>defect := t6\<rparr>) = (if e = Defect then tbl_seq t6 else seq_of e s)"
  "seq_of e (s\<lparr>lessons := t7\<rparr>) = (if e = Lesson then tbl_seq t7 else seq_of e s)"
  "seq_of e (s\<lparr>knowledge := t8\<rparr>) = (if e = KnowledgeNote then tbl_seq t8 else seq_of e s)"
  by (cases e; simp)+

lemma step_wf: "wf_db s \<Longrightarrow> wf_db (step c s)"
  using step_effect [of c s]
  by (elim disjE exE) (simp_all add: wf_db_def wf_tbl_insert wf_settings_replace)

lemma step_stable: "stable s (step c s)"
  using step_effect [of c s]
  by (elim disjE exE)
     (simp_all add: stable_def rows_stable_refl keeps_refl keeps_tbl_insert
        rows_stable_settings_replace)


lemma new_rowid_ge_seq: "tbl_seq t \<le> new_rowid t"
  using new_rowid_gt_seq [of t] by simp

lemma step_seq_mono: "seq_of e s \<le> seq_of e (step c s)"
  using step_effect [of c s]
  by (elim disjE exE)
     (auto simp: seq_of_update seq_tbl_insert seq_settings_replace new_rowid_ge_seq)

lemma step_fresh:
  "fresh_ids e s (step c s) = []
   \<or> (fresh_ids e s (step c s) = [seq_of e (step c s)] \<and> seq_of e s < seq_of e (step c s))"
  using step_effect [of c s]
  by (elim disjE exE)
     (auto simp: fresh_ids_def ids_of_update seq_of_update fresh_same fresh_tbl_insert
        fresh_settings_replace seq_tbl_insert seq_settings_replace new_rowid_gt_seq)


lemma wf_db_ids_of:
  assumes "wf_db s"
  shows "sorted_wrt (<) (ids_of e s)" and "\<forall>i\<in>set (ids_of e s). i \<le> seq_of e s"
  using assms by (cases e; simp add: wf_db_def wf_table_def list_all_iff)+

lemma stable_trans:
  assumes "stable s s1" "stable s1 s2" "seq_of Setting s \<le> seq_of Setting s1"
  shows "stable s s2"
  using assms unfolding stable_def
  by (auto intro: keeps_trans rows_stable_trans)

lemma run_wf: "wf_db s \<Longrightarrow> wf_db (run cs s)"
  by (induction cs arbitrary: s) (simp_all add: step_wf)

lemma run_seq_mono: "seq_of e s \<le> seq_of e (run cs s)"
proof (induction cs arbitrary: s)
  case Nil
  show ?case by simp
next
  case (Cons c cs)
  have "seq_of e s \<le> seq_of e (step c s)"
    by (rule step_seq_mono)
  also have "\<dots> \<le> seq_of e (run cs (step c s))"
    by (rule Cons.IH)
  finally show ?case by simp
qed

lemma run_stable: "stable s (run cs s)"
proof (induction cs arbitrary: s)
  case Nil
  show ?case by (simp add: stable_def rows_stable_refl keeps_refl)
next
  case (Cons c cs)
  show ?case
    using stable_trans [OF step_stable Cons.IH step_seq_mono] by simp
qed

lemma assigned_above: "\<forall>i\<in>set (assigned e cs s). seq_of e s < i"
proof (induction cs arbitrary: s)
  case Nil
  show ?case by simp
next
  case (Cons c cs)
  have rest: "\<forall>i\<in>set (assigned e cs (step c s)). seq_of e s < i"
    using Cons.IH [of "step c s"] step_seq_mono [of e s c] by auto
  show ?case
    using step_fresh [of e s c] rest by auto
qed

lemma assigned_sorted: "sorted_wrt (<) (assigned e cs s)"
proof (induction cs arbitrary: s)
  case Nil
  show ?case by simp
next
  case (Cons c cs)
  show ?case
    using step_fresh [of e s c] Cons.IH [of "step c s"] assigned_above [of e cs "step c s"]
    by (auto simp: sorted_wrt_append)
qed

lemma ids_then_assigned_sorted:
  assumes "wf_db s"
  shows "sorted_wrt (<) (ids_of e s @ assigned e cs s)"
  using wf_db_ids_of [OF assms, of e] assigned_sorted [of e cs s] assigned_above [of e cs s]
  by (fastforce simp: sorted_wrt_append)

text \<open>
  Claim C4, as the code has it, for the relational store. After any sequence of requests
  on a store whose tables respect their primary keys: every table still has its rowids
  strictly increasing (so unique) and bounded by its \<open>sqlite_sequence\<close> entry; every row
  of every table other than \<open>settings\<close> is still there, unchanged, and every Setting row
  that is there was there before, unchanged, or carries an id above every id assigned
  before; and the ids assigned within an entity type during the sequence are strictly
  increasing, above every id in the table and above every id assigned earlier. The id of
  a row never changes; a re-written Setting is a new row under a new id.
\<close>

theorem ids_increasing_and_stable:
  assumes "wf_db s"
  shows "wf_db (run cs s) \<and> stable s (run cs s)
         \<and> sorted_wrt (<) (ids_of e s @ assigned e cs s)
         \<and> list_all (\<lambda>i. seq_of e s < i) (assigned e cs s)"
  using run_wf [OF assms] run_stable ids_then_assigned_sorted [OF assms] assigned_above
  by (simp add: list_all_iff)

theorem ids_increasing_and_stable_witness:
  "wf_db two_settings
   \<and> wf_db (run three_calls two_settings)
   \<and> stable two_settings (run three_calls two_settings)
   \<and> ids_of Setting two_settings = [1, 2]
   \<and> assigned Setting three_calls two_settings = [3, 4]
   \<and> sorted_wrt (<) ([1, 2] @ [3, 4::nat])
   \<and> seq_of Setting two_settings = 2"
proof -
  have w: "wf_db two_settings"
    by code_simp
  have i: "ids_of Setting two_settings = [1, 2]"
    by code_simp
  have a: "assigned Setting three_calls two_settings = [3, 4]"
    by code_simp
  have q: "seq_of Setting two_settings = 2"
    by code_simp
  note t = ids_increasing_and_stable [OF w, of three_calls Setting]
  from t have r: "wf_db (run three_calls two_settings)"
    and st: "stable two_settings (run three_calls two_settings)"
    and so: "sorted_wrt (<) (ids_of Setting two_settings @ assigned Setting three_calls two_settings)"
    by blast+
  from so have so': "sorted_wrt (<) ([1, 2] @ [3, 4::nat])"
    unfolding i a .
  show ?thesis
    by (intro conjI) (fact w r st i a so' q)+
qed

text \<open>
  The Setting \<open>test.command\<close> has the id 1 after its first write and the id 2 after its
  second; and on the fallback server two Settings written within one millisecond have
  the same id.
\<close>

theorem setting_id_changes_counterexample:
  "ids_of Setting (run [(''ccmem_learn_setting'', test_cmd ''npm run test'', 100)] empty_db) = [1]
   \<and> ids_of Setting (run [(''ccmem_learn_setting'', test_cmd ''npm run test'', 100),
                          (''ccmem_learn_setting'', test_cmd ''npm run test:ci'', 160)] empty_db) = [2]
   \<and> map j_id (d_settings (node_run [(''ccmem_learn_setting'', start_cmd ''npm start'', at_ms 7),
                                     (''ccmem_learn_setting'', test_cmd ''npm run test'', at_ms 7)]
                             empty_data)) = [7, 7]"
  by code_simp

subsection \<open>The context report\<close>









subsection \<open>Previews\<close>

lemma substring0_preview: "substring0 n b @ ''...'' = preview n b"
  by (simp add: substring0_def preview_def)

lemma result_lines_preview:
  "result_lines r =
     [''**'' @ toUpperCase (f_type r) @ '' #'' @ str_of_nat (f_id r) @ ''**: '' @ f_title r,
      preview 150 (f_description r) @ bsn]"
  using substring0_preview [of 150 "f_description r"] by (simp add: result_lines_def)

lemma lesson_line_preview:
  "lesson_line p =
     ''- **'' @ ls_title (snd p) @ ''** ('' @ ls_category (snd p) @ ''): ''
       @ preview 100 (ls_description (snd p))"
  using substring0_preview [of 100 "ls_description (snd p)"] by (simp add: lesson_line_def)

lemma length_order_desc: "length (order_desc f xs) = length xs"
  by (simp add: order_desc_def)

lemma order_desc_Nil_iff: "order_desc f xs = [] \<longleftrightarrow> xs = []"
  by (metis length_order_desc length_0_conv)

lemma recent_section_lines:
  "tbl_rows (lessons s) \<noteq> []
     \<Longrightarrow> recent_section s =
           lessons_header
           # map lesson_line (take 3 (order_desc (\<lambda>p. ls_created_at (snd p)) (tbl_rows (lessons s))))"
  by (simp add: recent_section_def Let_def order_desc_Nil_iff)

lemma search_text_lines:
  "search_results q s \<noteq> []
     \<Longrightarrow> search_text q s =
           join bsn ((''## Search Results for '' @ dquote @ q @ dquote @ bsn)
                      # concat (map result_lines (search_results q s)))"
  by (simp add: search_text_def Let_def)

text \<open>
  Claim C7, as the code has it. For every matched result the search report has a title
  line and a body line: the body when it has at most 150 characters, else its first 150
  characters, followed in both cases by the ellipsis marker. Likewise the recent-lessons
  section renders each lesson with its description, or the first 100 characters of it,
  followed in both cases by the ellipsis marker.
\<close>

theorem preview_in_reports:
  "result_lines r =
     [''**'' @ toUpperCase (f_type r) @ '' #'' @ str_of_nat (f_id r) @ ''**: '' @ f_title r,
      preview 150 (f_description r) @ bsn]
   \<and> lesson_line p =
       ''- **'' @ ls_title (snd p) @ ''** ('' @ ls_category (snd p) @ ''): ''
         @ preview 100 (ls_description (snd p))
   \<and> (search_results q s \<noteq> [] \<longrightarrow>
         search_text q s =
           join bsn ((''## Search Results for '' @ dquote @ q @ dquote @ bsn)
                      # concat (map result_lines (search_results q s))))
   \<and> (tbl_rows (lessons s) \<noteq> [] \<longrightarrow>
         recent_section s =
           lessons_header
           # map lesson_line (take 3 (order_desc (\<lambda>p. ls_created_at (snd p)) (tbl_rows (lessons s)))))"
  using result_lines_preview lesson_line_preview search_text_lines recent_section_lines
  by blast

theorem preview_in_reports_witness:
  "search_results ''login'' busy_db \<noteq> []
   \<and> search_text ''login'' busy_db =
       join bsn [''## Search Results for '' @ dquote @ ''login'' @ dquote @ bsn,
                 ''**STORY #1**: Add login'', ''Implement OAuth login flow...'' @ bsn]
   \<and> tbl_rows (lessons long_db) \<noteq> []
   \<and> recent_section long_db =
       [lessons_header, ''- **Long** (process): '' @ replicate 100 (CHR ''z'') @ ''...'']"
proof -
  have a: "search_results ''login'' busy_db \<noteq> []"
    by code_simp
  have b: "tbl_rows (lessons long_db) \<noteq> []"
    by code_simp
  have c: "concat (map result_lines (search_results ''login'' busy_db)) =
      [''**STORY #1**: Add login'', ''Implement OAuth login flow...'' @ bsn]"
    by code_simp
  have d: "map lesson_line (take 3 (order_desc (\<lambda>p. ls_created_at (snd p)) (tbl_rows (lessons long_db))))
      = [''- **Long** (process): '' @ replicate 100 (CHR ''z'') @ ''...'']"
    by code_simp
  from preview_in_reports [of _ _ "''login''" busy_db] a
  have 1: "search_text ''login'' busy_db =
           join bsn ((''## Search Results for '' @ dquote @ ''login'' @ dquote @ bsn)
                      # concat (map result_lines (search_results ''login'' busy_db)))"
    by blast
  from preview_in_reports [of _ _ _ long_db] b
  have 2: "recent_section long_db =
           lessons_header
           # map lesson_line (take 3 (order_desc (\<lambda>p. ls_created_at (snd p)) (tbl_rows (lessons long_db))))"
    by blast
  show ?thesis
    unfolding 1 2 c d using a b by simp
qed

text \<open>
  A body of 26 characters and a description of 17 are rendered whole, and the ellipsis
  marker follows them all the same.
\<close>

theorem short_body_ellipsis_counterexample:
  "concat (map result_lines (search_results ''login'' busy_db)) =
      [''**STORY #1**: Add login'', ''Implement OAuth login flow...'' @ bsn]
   \<and> length ''Implement OAuth login flow'' = 26
   \<and> recent_section busy_db = [lessons_header, ''- **Cache** (performance): Cache the context...'']
   \<and> length ''Cache the context'' = 17"
  by code_simp

subsection \<open>Search\<close>






















subsection \<open>The two servers\<close>

lemma node_rejects_other_tools:
  "name \<noteq> ''ccmem_learn_setting'' \<Longrightarrow> name \<noteq> ''ccmem_get_context''
     \<Longrightarrow> node_handleCallTool name a clk d = Inl (UnknownTool name)"
  by (simp add: node_handleCallTool_def)

lemma set_map_filter_key:
  "set (map f (filter (\<lambda>x. \<not> Q (f x)) xs)) = {t \<in> set (map f xs). \<not> Q t}"
  by auto

lemma same_key_tuple:
  "same_key c k p
     \<longleftrightarrow> fst (setting_tuple p) = Some c \<and> fst (snd (setting_tuple p)) = Some k"
  by (simp add: same_key_def setting_tuple_def)

lemma node_same_key_tuple:
  "node_same_key c k r
     \<longleftrightarrow> fst (node_setting_tuple r) = c \<and> fst (snd (node_setting_tuple r)) = k"
  by (simp add: node_same_key_def node_setting_tuple_def)

lemma setting_step_agrees:
  assumes "same_settings s d" "complete_setting a"
  shows "reply (''ccmem_learn_setting'', a, now) s = node_reply (''ccmem_learn_setting'', a, clk) d
       \<and> \<not> isl (reply (''ccmem_learn_setting'', a, now) s)
       \<and> same_settings (step (''ccmem_learn_setting'', a, now) s)
           (node_step (''ccmem_learn_setting'', a, clk) d)"
proof (intro conjI)
  from assms(2) obtain c k v where
    h: "arg_category a = Some c" "arg_key a = Some k" "arg_value a = Some v"
    by (auto simp: complete_setting_def)
  show "reply (''ccmem_learn_setting'', a, now) s = node_reply (''ccmem_learn_setting'', a, clk) d"
    by (simp add: reply_def node_reply_def handleCallTool_def node_handleCallTool_def
        learnSetting_Inr [OF h] node_learnSetting_def h js_str_def Let_def)
  show "\<not> isl (reply (''ccmem_learn_setting'', a, now) s)"
    by (simp add: reply_def handleCallTool_def learnSetting_Inr [OF h])
  let ?Q = "\<lambda>t::setting_tuple. fst t = Some c \<and> fst (snd t) = Some k"
  have 1: "set (map setting_tuple (filter (\<lambda>p. \<not> same_key c k p) (tbl_rows (settings s))))
             = {t \<in> set (map setting_tuple (tbl_rows (settings s))). \<not> ?Q t}"
    unfolding same_key_tuple by (rule set_map_filter_key)
  have 2: "set (map node_setting_tuple
                  (filter (\<lambda>r. \<not> node_same_key (Some c) (Some k) r) (d_settings d)))
             = {t \<in> set (map node_setting_tuple (d_settings d)). \<not> ?Q t}"
    unfolding node_same_key_tuple by (rule set_map_filter_key)
  have 3: "tbl_rows (settings (step (''ccmem_learn_setting'', a, now) s))
             = filter (\<lambda>p. \<not> same_key c k p) (tbl_rows (settings s))
               @ [(new_rowid (settings s), \<lparr>s_category = c, s_key_name = k, s_value = v,
                     s_description = or_null (arg_description a), s_created_at = now,
                     s_updated_at = now\<rparr>)]"
    by (simp add: step_def handleCallTool_def learnSetting_Inr [OF h])
  have 4: "d_settings (node_step (''ccmem_learn_setting'', a, clk) d)
             = filter (\<lambda>r. \<not> node_same_key (Some c) (Some k) r) (d_settings d)
               @ [\<lparr>j_id = date_now clk, j_category = Some c, j_key_name = Some k,
                   j_value = Some v, j_description = or_null (arg_description a),
                   j_created_at = date_created clk, j_updated_at = date_updated clk\<rparr>]"
    by (simp add: node_step_def node_handleCallTool_def node_learnSetting_def h Let_def)
  show "same_settings (step (''ccmem_learn_setting'', a, now) s)
           (node_step (''ccmem_learn_setting'', a, clk) d)"
    using assms(1) unfolding same_settings_def 3 4
    by (simp only: map_append set_append 1 2)
       (simp add: setting_tuple_def node_setting_tuple_def)
qed

lemma setting_writes_agree_aux:
  assumes "same_settings s d" "list_all (\<lambda>w. complete_setting (fst w)) ws"
  shows "replies (sql_calls ws) s = node_replies (node_calls ws) d
         \<and> list_all (\<lambda>r. \<not> isl r) (replies (sql_calls ws) s)
         \<and> same_settings (run (sql_calls ws) s) (node_run (node_calls ws) d)"
  using assms
proof (induction ws arbitrary: s d)
  case Nil
  then show ?case by (simp add: sql_calls_def node_calls_def)
next
  case (Cons w ws)
  obtain a now clk where w: "w = (a, now, clk)"
    by (cases w)
  from Cons.prems have c: "complete_setting a" and r: "list_all (\<lambda>w. complete_setting (fst w)) ws"
    by (simp_all add: w)
  note st = setting_step_agrees [OF Cons.prems(1) c, of now clk]
  from st have st3: "same_settings (step (''ccmem_learn_setting'', a, now) s)
           (node_step (''ccmem_learn_setting'', a, clk) d)"
    by blast
  from st have st1: "reply (''ccmem_learn_setting'', a, now) s
                       = node_reply (''ccmem_learn_setting'', a, clk) d"
    and st2: "\<not> isl (reply (''ccmem_learn_setting'', a, now) s)"
    by blast+
  from Cons.IH [OF st3 r]
  have ih1: "replies (sql_calls ws) (step (''ccmem_learn_setting'', a, now) s)
               = node_replies (node_calls ws) (node_step (''ccmem_learn_setting'', a, clk) d)"
    and ih2: "list_all (\<lambda>r. \<not> isl r)
                (replies (sql_calls ws) (step (''ccmem_learn_setting'', a, now) s))"
    and ih3: "same_settings (run (sql_calls ws) (step (''ccmem_learn_setting'', a, now) s))
                (node_run (node_calls ws) (node_step (''ccmem_learn_setting'', a, clk) d))"
    by blast+
  have e1: "sql_calls (w # ws) = (''ccmem_learn_setting'', a, now) # sql_calls ws"
    and e2: "node_calls (w # ws) = (''ccmem_learn_setting'', a, clk) # node_calls ws"
    by (simp_all add: sql_calls_def node_calls_def w)
  have A: "replies (sql_calls (w # ws)) s = node_replies (node_calls (w # ws)) d"
    unfolding e1 e2 by (simp add: st1 ih1)
  have B: "list_all (\<lambda>r. \<not> isl r) (replies (sql_calls (w # ws)) s)"
    unfolding e1 using st2 ih2 by simp
  have C: "same_settings (run (sql_calls (w # ws)) s) (node_run (node_calls (w # ws)) d)"
    unfolding e1 e2 using ih3 by simp
  show ?case
    using A B C by blast
qed

lemma settings_lines_agree:
  assumes "same_settings s d"
  shows "set (settings_section s) = set (node_settings_section d)"
proof -
  let ?fmt = "\<lambda>t::setting_tuple. ''- '' @ js_str (fst t) @ ''.'' @ js_str (fst (snd t)) @ '': `''
                 @ js_str (fst (snd (snd t))) @ ''`''"
  have a: "(\<lambda>p. ''- '' @ s_category (snd p) @ ''.'' @ s_key_name (snd p) @ '': `''
                         @ s_value (snd p) @ ''`'') = ?fmt \<circ> setting_tuple"
    by (rule ext) (simp add: setting_tuple_def js_str_def)
  have b: "(\<lambda>r. ''- '' @ js_str (j_category r) @ ''.'' @ js_str (j_key_name r) @ '': `''
                         @ js_str (j_value r) @ ''`'') = ?fmt \<circ> node_setting_tuple"
    by (rule ext) (simp add: node_setting_tuple_def)
  from assms have e: "setting_tuple ` set (tbl_rows (settings s)) = node_setting_tuple ` set (d_settings d)"
    by (simp add: same_settings_def)
  then have n: "tbl_rows (settings s) = [] \<longleftrightarrow> d_settings d = []"
    by (metis image_is_empty set_empty)
  have l1: "set (settings_section s) =
      (if tbl_rows (settings s) = [] then {}
       else insert (bsn @ ''## Key Settings'') (?fmt ` (setting_tuple ` set (tbl_rows (settings s)))))"
    unfolding settings_section_def Let_def a by (auto simp: image_image)
  have l2: "set (node_settings_section d) =
      (if d_settings d = [] then {}
       else insert (bsn @ ''## Key Settings'') (?fmt ` (node_setting_tuple ` set (d_settings d))))"
    unfolding node_settings_section_def b by (auto simp: image_image)
  show ?thesis
    unfolding l1 l2 e n ..
qed

text \<open>
  Claim C3, as the code has it. The fallback server accepts two tools only, the Setting
  write and the context report. On a sequence of Setting writes whose required
  properties are present, run against both servers from stores that hold the same
  Settings, the two servers give the same replies, all of them confirmations, and
  afterwards hold the same Settings again, which the settings sections of their context
  reports list with the same lines (the relational server sorted by category and key,
  the fallback server in write order).
\<close>

theorem setting_writes_agree:
  assumes "same_settings s d" "list_all (\<lambda>w. complete_setting (fst w)) ws"
  shows "replies (sql_calls ws) s = node_replies (node_calls ws) d
         \<and> list_all (\<lambda>r. \<not> isl r) (replies (sql_calls ws) s)
         \<and> same_settings (run (sql_calls ws) s) (node_run (node_calls ws) d)
         \<and> set (settings_section (run (sql_calls ws) s))
             = set (node_settings_section (node_run (node_calls ws) d))
         \<and> (name \<noteq> ''ccmem_learn_setting'' \<and> name \<noteq> ''ccmem_get_context''
              \<longrightarrow> node_handleCallTool name a clk d' = Inl (UnknownTool name))"
proof -
  note m = setting_writes_agree_aux [OF assms]
  from m have "same_settings (run (sql_calls ws) s) (node_run (node_calls ws) d)"
    by blast
  from settings_lines_agree [OF this] m node_rejects_other_tools [of name a clk d']
  show ?thesis
    by blast
qed

theorem setting_writes_agree_witness:
  "same_settings two_settings two_settings_data
   \<and> list_all (\<lambda>w. complete_setting (fst w)) two_writes
   \<and> replies (sql_calls two_writes) two_settings
       = node_replies (node_calls two_writes) two_settings_data
   \<and> list_all (\<lambda>r. \<not> isl r) (replies (sql_calls two_writes) two_settings)
   \<and> same_settings (run (sql_calls two_writes) two_settings)
        (node_run (node_calls two_writes) two_settings_data)
   \<and> set (settings_section (run (sql_calls two_writes) two_settings))
       = set (node_settings_section (node_run (node_calls two_writes) two_settings_data))
   \<and> settings_section (run (sql_calls two_writes) two_settings)
       = [bsn @ ''## Key Settings'', ''- start.command: `npm run dev`'',
          ''- test.command: `npm run test:ci`'']
   \<and> node_settings_section (node_run (node_calls two_writes) two_settings_data)
       = [bsn @ ''## Key Settings'', ''- test.command: `npm run test:ci`'',
          ''- start.command: `npm run dev`'']
   \<and> ''ccmem_search'' \<noteq> ''ccmem_learn_setting'' \<and> ''ccmem_search'' \<noteq> ''ccmem_get_context''
   \<and> node_handleCallTool ''ccmem_search'' (query_args ''login'') (at_ms 60) two_settings_data
       = Inl (UnknownTool ''ccmem_search'')"
proof -
  have h: "same_settings two_settings two_settings_data"
    "list_all (\<lambda>w. complete_setting (fst w)) two_writes"
    by code_simp+
  have l0: "tbl_rows (settings (run (sql_calls two_writes) two_settings))
       = [(3, \<lparr>s_category = ''test'', s_key_name = ''command'', s_value = ''npm run test:ci'',
                s_description = None, s_created_at = 40, s_updated_at = 40\<rparr>),
          (4, \<lparr>s_category = ''start'', s_key_name = ''command'', s_value = ''npm run dev'',
                s_description = None, s_created_at = 50, s_updated_at = 50\<rparr>)]"
    by code_simp
  have l: "settings_section (run (sql_calls two_writes) two_settings)
       = [bsn @ ''## Key Settings'', ''- start.command: `npm run dev`'',
          ''- test.command: `npm run test:ci`'']"
    "node_settings_section (node_run (node_calls two_writes) two_settings_data)
       = [bsn @ ''## Key Settings'', ''- test.command: `npm run test:ci`'',
          ''- start.command: `npm run dev`'']"
    by (simp add: settings_section_def l0 less_eq_prod_def, code_simp)
  have n: "''ccmem_search'' \<noteq> ''ccmem_learn_setting''" "''ccmem_search'' \<noteq> ''ccmem_get_context''"
    by simp_all
  note t = setting_writes_agree [OF h, of "''ccmem_search''" "query_args ''login''" "at_ms 60"
      two_settings_data]
  from t n have 1: "replies (sql_calls two_writes) two_settings
       = node_replies (node_calls two_writes) two_settings_data"
    and 2: "list_all (\<lambda>r. \<not> isl r) (replies (sql_calls two_writes) two_settings)"
    and 3: "same_settings (run (sql_calls two_writes) two_settings)
        (node_run (node_calls two_writes) two_settings_data)"
    and 4: "set (settings_section (run (sql_calls two_writes) two_settings))
       = set (node_settings_section (node_run (node_calls two_writes) two_settings_data))"
    and 5: "node_handleCallTool ''ccmem_search'' (query_args ''login'') (at_ms 60) two_settings_data
       = Inl (UnknownTool ''ccmem_search'')"
    by blast+
  show ?thesis
    by (intro conjI) (fact h 1 2 3 4 l n 5)+
qed

text \<open>
  Creating a story is accepted by the relational server and refused by the fallback
  server; and the context report, which both accept, has another status summary on
  each.
\<close>

theorem backends_differ_counterexample:
  "replies [(''ccmem_create_story'', story_args, 20)] empty_db
     = [Inr (''Created story #1: Add login'' @ nl @ nl
               @ ''This replaces traditional GitHub PRs with intelligent project memory.'')]
   \<and> node_replies [(''ccmem_create_story'', story_args, at_ms 21)] empty_data
       = [Inl (UnknownTool ''ccmem_create_story'')]
   \<and> replies [(''ccmem_get_context'', focus_args ''settings'', 20)] empty_db
       = [Inr (join bsn [''## Project Status'', ''- Active Stories: 0'', ''- Pending Tasks: 0'',
                         ''- Open Defects: 0'', ''- Lessons Learned: 0''])]
   \<and> node_replies [(''ccmem_get_context'', focus_args ''settings'', at_ms 21)] empty_data
       = [Inr (join bsn [''## Project Status'', ''- Settings Learned: 0'',
                         ''- Architecture Components: 0'', ''- Active Stories: 0''])]"
  by code_simp

end
